theory Spec2Isabelle
  imports Complex_Main "HOL-Library.Sublist" "HOL-Library.Log_Nat"
begin

section \<open>Arrays, values and errors\<close>

text \<open>
  A cell of a float64 array is either not-a-number or a number.  The notebooks test cells
  with \<^verbatim>\<open>np.isnan\<close> / \<^verbatim>\<open>cp.isnan\<close> / \<^verbatim>\<open>tf.math.is_nan\<close>.
\<close>

datatype fval = NaN | Num real

fun isnan :: "fval \<Rightarrow> bool" where
  "isnan NaN = True"
| "isnan (Num x) = False"

text \<open>
  A raised exception is an \<open>Inl\<close>: the error taxonomy of the design (section 7), and the
  two Python exceptions of array indexing and broadcasting.
\<close>

datatype error =
  CacheNotFoundError | OrderMismatchError | DegenerateInputError | IndexError | ValueError

text \<open>
  \<^verbatim>\<open>np.arange(n)\<close> for a non-negative integer \<open>n\<close>: the values \<open>0, 1, ..., n - 1\<close>.
\<close>

definition arange :: "nat \<Rightarrow> real list" where
  "arange n = map real [0..<n]"

text \<open>
  \<^verbatim>\<open>x[~np.isnan(x)]\<close> (and \<^verbatim>\<open>tf.reshape(tf.boolean_mask(x, ~tf.math.is_nan(x)), [-1])\<close>):
  boolean-mask selection keeps, in row-major order, the cells whose mask is true.
\<close>

definition nan_filter :: "fval list \<Rightarrow> fval list" where
  "nan_filter x = filter (\<lambda>c. \<not> isnan c) x"

section \<open>Data model\<close>

text \<open>
  A voxel grid is a dense three-dimensional array of densities: its shape
  (\<^verbatim>\<open>Voxel3D.shape\<close>) and its cells.
\<close>

record voxel =
  shape :: "nat \<times> nat \<times> nat"
  cells :: "nat \<Rightarrow> nat \<Rightarrow> nat \<Rightarrow> real"

text \<open>
  The sample lattice: the dictionary with the keys \<^verbatim>\<open>X_sample\<close>, \<^verbatim>\<open>Y_sample\<close>,
  \<^verbatim>\<open>Z_sample\<close> of the NumPy notebook (three separate arguments in the CuPy and
  TensorFlow notebooks).
\<close>

record sample_struct =
  X_sample :: "real list"
  Y_sample :: "real list"
  Z_sample :: "real list"

text \<open>
  The geometric moment tensor, indexed by the exponents \<open>(p, q, r)\<close>; an index that
  is not populated is \<open>None\<close>.
\<close>

type_synonym tensor = "nat \<times> nat \<times> nat \<Rightarrow> real option"

text \<open>
  Complex Zernike moments, indexed by \<open>(n, l, m)\<close> up to an order; a NaN sentinel
  (an index combination that is not populated) is \<open>None\<close>.
\<close>

record zmoment =
  zorder :: nat
  zval :: "nat \<Rightarrow> nat \<Rightarrow> int \<Rightarrow> complex option"

text \<open>
  The globals of the notebook: \<^verbatim>\<open>Param = z.get_global_parameter()\<close> and the five tables
  read from the pickled cache bundle \<^verbatim>\<open>LogG_CLMCache_MaxOrderNN.pkl\<close> (integer tables
  \<^verbatim>\<open>int32\<close>, complex tables \<^verbatim>\<open>complex128\<close>, \<^verbatim>\<open>CLMCache\<close> \<^verbatim>\<open>float64\<close>), each held
  as its flat data.
\<close>

record param =
  default_radius_multiplier :: real

record globals =
  Param :: param
  GCache_pqr_linear :: "int list"
  GCache_complex :: "complex list"
  GCache_complex_index :: "int list"
  CLMCache3D :: "complex list"
  CLMCache :: "real list"

text \<open>
  The library \<^verbatim>\<open>z\<close> (\<^verbatim>\<open>import ZMPY3D as z\<close>) is not part of the notebooks: the
  five operations the direct pipeline calls are parameters of the model.  Each may raise.
\<close>

record lib =
  calculate_bbox_moment ::
    "voxel \<Rightarrow> nat \<Rightarrow> sample_struct \<Rightarrow> error + (real \<times> (real \<times> real \<times> real) \<times> tensor)"
  calculate_molecular_radius ::
    "voxel \<Rightarrow> real \<times> real \<times> real \<Rightarrow> real \<Rightarrow> real \<Rightarrow> error + (real \<times> real)"
  get_bbox_moment_xyz_sample ::
    "real \<times> real \<times> real \<Rightarrow> real \<Rightarrow> nat \<times> nat \<times> nat \<Rightarrow> error + sample_struct"
  calculate_bbox_moment_2_zm ::
    "nat \<Rightarrow> complex list \<Rightarrow> int list \<Rightarrow> int list \<Rightarrow> complex list \<Rightarrow> tensor
      \<Rightarrow> error + (zmoment \<times> zmoment)"
  get_3dzd_121_descriptor :: "zmoment \<Rightarrow> error + fval list"

section \<open>The direct descriptor pipeline\<close>

text \<open>
  The unit lattice of \<^verbatim>\<open>OneTimeConversion\<close>:
  \<^verbatim>\<open>{'X_sample': np.arange(Dimension_BBox_scaled[0] + 1), ...}\<close>.
\<close>

definition XYZ_SampleStruct :: "voxel \<Rightarrow> sample_struct" where
  "XYZ_SampleStruct Voxel3D =
     (case shape Voxel3D of (d0, d1, d2) \<Rightarrow>
        \<lparr>X_sample = arange (d0 + 1), Y_sample = arange (d1 + 1), Z_sample = arange (d2 + 1)\<rparr>)"

text \<open>
  \<^verbatim>\<open>OneTimeConversion(Voxel3D, MaxOrder)\<close> of the timing notebook, statement by
  statement; \<open>z\<close> is the library and \<open>g\<close> the notebook's globals.  An exception raised by
  a library call leaves the function at that call.  \<^verbatim>\<open>OneTimeConversion_CP\<close> and
  \<^verbatim>\<open>OneTimeConversion_TF\<close> are the same sequence of calls on the CuPy and TensorFlow
  builds of the library (there the shape is held in 32-bit integers; the model covers the
  axis lengths whose successor fits).
\<close>

definition OneTimeConversion :: "lib \<Rightarrow> globals \<Rightarrow> voxel \<Rightarrow> nat \<Rightarrow> error + fval list" where
  "OneTimeConversion z g Voxel3D MaxOrder =
     (let Dimension_BBox_scaled = shape Voxel3D in
      case calculate_bbox_moment z Voxel3D 1 (XYZ_SampleStruct Voxel3D) of
        Inl e \<Rightarrow> Inl e
      | Inr (VolumeMass, Center, _) \<Rightarrow>
      case calculate_molecular_radius z Voxel3D Center VolumeMass
             (default_radius_multiplier (Param g)) of
        Inl e \<Rightarrow> Inl e
      | Inr (AverageVoxelDist2Center, _) \<Rightarrow>
      case get_bbox_moment_xyz_sample z Center AverageVoxelDist2Center Dimension_BBox_scaled of
        Inl e \<Rightarrow> Inl e
      | Inr SphereXYZ_SampleStruct \<Rightarrow>
      case calculate_bbox_moment z Voxel3D MaxOrder SphereXYZ_SampleStruct of
        Inl e \<Rightarrow> Inl e
      | Inr (_, _, SphereBBoxMoment) \<Rightarrow>
      case calculate_bbox_moment_2_zm z MaxOrder (GCache_complex g) (GCache_pqr_linear g)
             (GCache_complex_index g) (CLMCache3D g) SphereBBoxMoment of
        Inl e \<Rightarrow> Inl e
      | Inr (ZMoment_scaled, _) \<Rightarrow>
      case get_3dzd_121_descriptor z ZMoment_scaled of
        Inl e \<Rightarrow> Inl e
      | Inr ZM_3DZD_invariant \<Rightarrow> Inr (nan_filter ZM_3DZD_invariant))"

section \<open>The library operations of the design\<close>

text \<open>
  Modelled from the spec: \<^verbatim>\<open>calculate_bbox_moment\<close> (the \<^verbatim>\<open>computeMoments\<close> of
  section 4.2) is missing from the notebooks.  The grid is integrated against
  \<open>x^p * y^q * z^r\<close> evaluated at the lattice nodes and weighted by the density: cell
  \<open>(i, j, k)\<close> is taken at the nodes \<open>i\<close>, \<open>j\<close>, \<open>k\<close> of the three axes (the lattices
  the pipeline builds have a node for every cell).
\<close>

definition moment :: "voxel \<Rightarrow> sample_struct \<Rightarrow> nat \<times> nat \<times> nat \<Rightarrow> real" where
  "moment grid S pqr =
     (case (pqr, shape grid) of ((p, q, r), (d0, d1, d2)) \<Rightarrow>
        (\<Sum>i\<leftarrow>[0..<d0]. \<Sum>j\<leftarrow>[0..<d1]. \<Sum>k\<leftarrow>[0..<d2].
           cells grid i j k * (X_sample S ! i) ^ p * (Y_sample S ! j) ^ q * (Z_sample S ! k) ^ r))"

text \<open>
  Modelled from the spec: the total mass of a voxel grid, the sum of its densities (the
  notebooks never compute it themselves).
\<close>

definition total_mass :: "voxel \<Rightarrow> real" where
  "total_mass grid =
     (case shape grid of (d0, d1, d2) \<Rightarrow>
        (\<Sum>i\<leftarrow>[0..<d0]. \<Sum>j\<leftarrow>[0..<d1]. \<Sum>k\<leftarrow>[0..<d2]. cells grid i j k))"

text \<open>
  Modelled from the spec: \<^verbatim>\<open>calculate_bbox_moment\<close> is missing from the notebooks.  The
  moments are computed for every \<open>(p, q, r)\<close> with \<open>p + q + r \<le> order\<close>; the mass is the
  \<open>(0, 0, 0)\<close> moment, the center the ratios of the first-order moments to the mass; zero
  total mass fails with \<open>DegenerateInputError\<close>.
\<close>

definition computeMoments ::
  "voxel \<Rightarrow> nat \<Rightarrow> sample_struct \<Rightarrow> error + (real \<times> (real \<times> real \<times> real) \<times> tensor)" where
  "computeMoments grid Order S =
     (let T = (\<lambda>(p, q, r). if p + q + r \<le> Order then Some (moment grid S (p, q, r)) else None);
          mass = moment grid S (0, 0, 0)
      in if mass = 0 then Inl DegenerateInputError
         else Inr (mass,
                   (moment grid S (1, 0, 0) / mass,
                    moment grid S (0, 1, 0) / mass,
                    moment grid S (0, 0, 1) / mass),
                   T))"

text \<open>
  Modelled from the spec: the triangular invariant of an \<open>(n, l)\<close> pair (the library's
  index tables are missing from the notebooks): \<open>l \<le> n\<close> and \<open>n - l\<close> even.
\<close>

definition valid_nl :: "nat \<Rightarrow> nat \<Rightarrow> bool" where
  "valid_nl n l = (l \<le> n \<and> even (n - l))"

text \<open>
  Modelled from the spec: the rotation-invariant norm of \<^verbatim>\<open>get_3dzd_121_descriptor\<close>
  (missing from the notebooks): the square root of the sum of the squared magnitudes of
  the populated moments among the \<open>2 l + 1\<close> values of \<open>m\<close>.
\<close>

definition invariant_norm :: "zmoment \<Rightarrow> nat \<Rightarrow> nat \<Rightarrow> real" where
  "invariant_norm Z n l =
     sqrt (\<Sum>c\<leftarrow>List.map_filter (zval Z n l) [- int l..int l]. (cmod c)\<^sup>2)"

text \<open>
  Modelled from the spec: \<^verbatim>\<open>get_3dzd_121_descriptor\<close> (the \<^verbatim>\<open>directInvariant\<close> of
  section 4.4) is missing from the notebooks.  The entry of an \<open>(n, l)\<close> pair that
  satisfies the triangular invariant is its norm, the entry of any other pair is NaN; the
  entries are laid out row by row, \<open>n\<close> and \<open>l\<close> from \<open>0\<close> to the order.
\<close>

definition directInvariant :: "zmoment \<Rightarrow> fval list" where
  "directInvariant Z =
     concat (map (\<lambda>n. map (\<lambda>l. if valid_nl n l then Num (invariant_norm Z n l) else NaN)
                           [0..<zorder Z + 1])
                 [0..<zorder Z + 1])"

text \<open>
  Modelled from the spec: the \<open>(n, l)\<close> pairs up to an order that satisfy the triangular
  invariant, in the row-by-row order of the descriptor (the library's index tables are
  missing from the notebooks).
\<close>

definition valid_pairs :: "nat \<Rightarrow> (nat \<times> nat) list" where
  "valid_pairs N = filter (\<lambda>(n, l). valid_nl n l) (List.product [0..<N + 1] [0..<N + 1])"

text \<open>
  Modelled from the spec: the library of the design, which is missing from the notebooks:
  the two operations above, and the three operations the design leaves open (molecular
  radius, sphere lattice, Zernike transform) taken from \<open>z\<close>.
\<close>

definition design_lib :: "lib \<Rightarrow> lib" where
  "design_lib z =
     z\<lparr>calculate_bbox_moment := computeMoments,
       get_3dzd_121_descriptor := (\<lambda>Z. Inr (directInvariant Z))\<rparr>"

text \<open>
  The library \<open>z\<close> with the tensor that \<^verbatim>\<open>calculate_bbox_moment\<close> returns at order 1
  replaced by \<open>T'\<close>; mass and center are kept.
\<close>

definition replace_order1_tensor :: "tensor \<Rightarrow> lib \<Rightarrow> lib" where
  "replace_order1_tensor T' z =
     z\<lparr>calculate_bbox_moment :=
         (\<lambda>v Order S.
            if Order = 1
            then (case calculate_bbox_moment z v Order S of
                    Inl e \<Rightarrow> Inl e
                  | Inr (mass, center, _) \<Rightarrow> Inr (mass, center, T'))
            else calculate_bbox_moment z v Order S)\<rparr>"

section \<open>The shape score\<close>

text \<open>
  The shape-score notebook joins the direct descriptor and the rotation-aligned
  descriptors: \<^verbatim>\<open>cp.concatenate([z[~cp.isnan(z)] for z in ZMList])\<close>.
\<close>

definition MomentInvariant :: "fval list list \<Rightarrow> fval list" where
  "MomentInvariant ZMList = concat (map nan_filter ZMList)"

subsection \<open>Float64 arithmetic\<close>

text \<open>
  The arithmetic of the score is that of float64 arrays: every operation returns the
  exact result rounded to the nearest number with a 53-bit significand, ties to the even
  significand.  Finite numbers are held as reals; the exponent range is not bounded (no
  overflow to infinity, no gradual underflow).
\<close>

definition pow2 :: "int \<Rightarrow> real" where
  "pow2 e = (if 0 \<le> e then 2 ^ nat e else 1 / 2 ^ nat (- e))"

text \<open>The binary exponent of a positive number: the \<open>k\<close> with \<open>2^k \<le> x < 2^(k+1)\<close>.\<close>

definition ilog2 :: "real \<Rightarrow> int" where
  "ilog2 x = (if 1 \<le> x then bitlen \<lfloor>x\<rfloor> - 1 else - bitlen (\<lceil>1 / x\<rceil> - 1))"

definition round_half_even :: "real \<Rightarrow> int" where
  "round_half_even q =
     (let f = \<lfloor>q\<rfloor>; d = q - of_int f
      in if d < 1 / 2 then f else if 1 / 2 < d then f + 1 else if even f then f else f + 1)"

definition rnd64 :: "real \<Rightarrow> real" where
  "rnd64 x =
     (if x = 0 then 0
      else let e = ilog2 \<bar>x\<bar> - 52
           in sgn x * (of_int (round_half_even (\<bar>x\<bar> * pow2 (- e))) * pow2 e))"

subsection \<open>The comparator\<close>

text \<open>
  \<^verbatim>\<open>P = z.get_descriptor_property()\<close>: the index and weight tables of the score, after
  \<^verbatim>\<open>cp.vstack\<close>.  All operands of the score are column vectors, held as lists.
\<close>

record descriptor_property =
  ZMIndex :: "int list"
  ZMWeight :: "real list"
  GeoWeight :: "real list"

text \<open>
  \<^verbatim>\<open>a[idx]\<close> with an integer array \<open>idx\<close> on a CuPy array: an index out of bounds wraps
  around; nothing can be taken from an empty array.
\<close>

definition fancy_index :: "real list \<Rightarrow> int list \<Rightarrow> error + real list" where
  "fancy_index a idx =
     (if a = [] \<and> idx \<noteq> [] then Inl IndexError
      else Inr (map (\<lambda>i. a ! nat (i mod int (length a))) idx))"

text \<open>
  An elementwise operation on two column vectors: equal lengths pair up, a vector of
  length one is broadcast, any other pair of shapes raises.
\<close>

definition broadcast :: "('a \<Rightarrow> 'b \<Rightarrow> 'c) \<Rightarrow> 'a list \<Rightarrow> 'b list \<Rightarrow> error + 'c list" where
  "broadcast f x y =
     (if length x = length y then Inr (map2 f x y)
      else if length x = 1 then Inr (map (f (hd x)) y)
      else if length y = 1 then Inr (map (\<lambda>a. f a (hd y)) x)
      else Inl ValueError)"

text \<open>
  \<^verbatim>\<open>cp.sum\<close>, modelled as an accumulation from the first cell to the last, each addition
  rounded.
\<close>

definition fsum :: "(real \<Rightarrow> real) \<Rightarrow> real list \<Rightarrow> real" where
  "fsum rnd x = foldl (\<lambda>s c. rnd (s + c)) 0 x"

text \<open>
  \<^verbatim>\<open>ZMScore = cp.sum(cp.abs(MomentInvariantRawA[ZMIndex] - MomentInvariantRawB[ZMIndex]) * ZMWeight)\<close>.
  The rounding \<open>rnd\<close> of the arithmetic is a parameter: \<open>rnd64\<close> for the notebook's
  arrays, the identity for exact arithmetic.
\<close>

definition ZMScore ::
  "(real \<Rightarrow> real) \<Rightarrow> descriptor_property \<Rightarrow> real list \<Rightarrow> real list \<Rightarrow> error + real" where
  "ZMScore rnd P MomentInvariantRawA MomentInvariantRawB =
     (case fancy_index MomentInvariantRawA (ZMIndex P) of
        Inl e \<Rightarrow> Inl e
      | Inr a \<Rightarrow>
      case fancy_index MomentInvariantRawB (ZMIndex P) of
        Inl e \<Rightarrow> Inl e
      | Inr b \<Rightarrow>
      case broadcast (\<lambda>x y. \<bar>rnd (x - y)\<bar>) a b of
        Inl e \<Rightarrow> Inl e
      | Inr d \<Rightarrow>
      case broadcast (\<lambda>c w. rnd (c * w)) d (ZMWeight P) of
        Inl e \<Rightarrow> Inl e
      | Inr t \<Rightarrow> Inr (fsum rnd t))"

text \<open>
  \<^verbatim>\<open>GeoScore = cp.sum(cp.asarray(P['GeoWeight']) * (2 * cp.abs(GeoDescriptorA - GeoDescriptorB) / (1 + cp.abs(GeoDescriptorA) + cp.abs(GeoDescriptorB))))\<close>;
  the denominator is summed from the left.
\<close>

definition GeoScore ::
  "(real \<Rightarrow> real) \<Rightarrow> descriptor_property \<Rightarrow> real list \<Rightarrow> real list \<Rightarrow> error + real" where
  "GeoScore rnd P GeoDescriptorA GeoDescriptorB =
     (case broadcast (\<lambda>x y. rnd (2 * \<bar>rnd (x - y)\<bar>)) GeoDescriptorA GeoDescriptorB of
        Inl e \<Rightarrow> Inl e
      | Inr num \<Rightarrow>
      case broadcast (\<lambda>x y. rnd (rnd (1 + \<bar>x\<bar>) + \<bar>y\<bar>)) GeoDescriptorA GeoDescriptorB of
        Inl e \<Rightarrow> Inl e
      | Inr den \<Rightarrow>
      case broadcast (\<lambda>c d. rnd (c / d)) num den of
        Inl e \<Rightarrow> Inl e
      | Inr q \<Rightarrow>
      case broadcast (\<lambda>w c. rnd (w * c)) (GeoWeight P) q of
        Inl e \<Rightarrow> Inl e
      | Inr t \<Rightarrow> Inr (fsum rnd t))"

text \<open>
  \<^verbatim>\<open>GeoScoreScaled = (6.6 - GeoScore) / 6.6 * 100.0\<close> and
  \<^verbatim>\<open>ZMScoreScaled = (9.0 - ZMScore) / 9.0 * 100.0\<close>; a decimal literal is the float64
  nearest to it.
\<close>

definition rescale :: "(real \<Rightarrow> real) \<Rightarrow> real \<Rightarrow> real \<Rightarrow> real" where
  "rescale rnd ref s = rnd (rnd (rnd (rnd ref - s) / rnd ref) * 100)"

text \<open>
  The scoring cell of the notebook, from the two descriptor vectors and the two
  geometric vectors to \<^verbatim>\<open>(GeoScoreScaled, ZMScoreScaled)\<close>.
\<close>

definition score ::
  "(real \<Rightarrow> real) \<Rightarrow> descriptor_property \<Rightarrow> real list \<Rightarrow> real list \<Rightarrow> real list \<Rightarrow> real list
     \<Rightarrow> error + (real \<times> real)" where
  "score rnd P MomentInvariantRawA GeoDescriptorA MomentInvariantRawB GeoDescriptorB =
     (case ZMScore rnd P MomentInvariantRawA MomentInvariantRawB of
        Inl e \<Rightarrow> Inl e
      | Inr zm \<Rightarrow>
      case GeoScore rnd P GeoDescriptorA GeoDescriptorB of
        Inl e \<Rightarrow> Inl e
      | Inr geo \<Rightarrow> Inr (rescale rnd (66 / 10) geo, rescale rnd 9 zm))"

section \<open>Concrete inputs\<close>

text \<open>A grid of uniform density \<open>c\<close>, and the notebook globals with empty tables.\<close>

definition uniform_grid :: "nat \<Rightarrow> nat \<Rightarrow> nat \<Rightarrow> real \<Rightarrow> voxel" where
  "uniform_grid d0 d1 d2 c = \<lparr>shape = (d0, d1, d2), cells = (\<lambda>i j k. c)\<rparr>"

definition empty_globals :: globals where
  "empty_globals =
     \<lparr>Param = \<lparr>default_radius_multiplier = 2\<rparr>, GCache_pqr_linear = [], GCache_complex = [],
      GCache_complex_index = [], CLMCache3D = [], CLMCache = []\<rparr>"

text \<open>Zernike moments of a given order that are zero at every populated index.\<close>

definition zero_moments :: "nat \<Rightarrow> zmoment" where
  "zero_moments Order =
     \<lparr>zorder = Order,
      zval = (\<lambda>n l m. if valid_nl n l \<and> n \<le> Order \<and> \<bar>m\<bar> \<le> int l then Some 0 else None)\<rparr>"

text \<open>Moments of order 2 that are populated at \<open>m = 0\<close> only, with the value \<open>3 + 4i\<close>.\<close>

definition axial_moments :: zmoment where
  "axial_moments = \<lparr>zorder = 2, zval = (\<lambda>n l m. if m = 0 then Some (Complex 3 4) else None)\<rparr>"

text \<open>
  A library whose operations are constants: radius 1, the unit lattice of a
  \<open>2 \<times> 2 \<times> 2\<close> grid as the sphere lattice, zero moments.
\<close>

definition constant_lib :: lib where
  "constant_lib =
     \<lparr>calculate_bbox_moment = (\<lambda>v Order S. Inr (1, (0, 0, 0), (\<lambda>pqr. Some 0))),
      calculate_molecular_radius = (\<lambda>v c m r. Inr (1, 1)),
      get_bbox_moment_xyz_sample =
        (\<lambda>c a d. Inr \<lparr>X_sample = arange 3, Y_sample = arange 3, Z_sample = arange 3\<rparr>),
      calculate_bbox_moment_2_zm = (\<lambda>Order c1 c2 c3 c4 T. Inr (zero_moments Order, zero_moments Order)),
      get_3dzd_121_descriptor = (\<lambda>Z. Inr [NaN, Num 0, NaN])\<rparr>"

section \<open>The unit lattice\<close>

lemma arange_length: "length (arange n) = n"
  by (simp add: arange_def)

lemma arange_nth: "i < n \<Longrightarrow> arange n ! i = real i"
  by (simp add: arange_def)

lemma arange_Suc_last: "last (arange (Suc n)) = real n"
  by (simp add: arange_def)

lemma arange_Suc_hd: "hd (arange (Suc n)) = 0"
  by (simp add: arange_def upt_conv_Cons del: upt_Suc)

text \<open>
  C9, as stated, fails: on a grid of shape \<open>2 \<times> 3 \<times> 4\<close> the last node of the unit
  lattice along the first axis is \<open>2\<close>, the axis length, not the axis length minus one.
\<close>

theorem unit_lattice_last_counterexample:
  "last (X_sample (XYZ_SampleStruct (uniform_grid 2 3 4 1))) \<noteq> real 2 - 1"
  by (simp add: XYZ_SampleStruct_def uniform_grid_def arange_def)

text \<open>
  C9, amended: along each axis the unit lattice of the first moment pass is the sequence
  of the consecutive integers \<open>0, 1, ..., d\<close>, where \<open>d\<close> is the axis length: it has
  \<open>d + 1\<close> nodes, its node \<open>i\<close> is \<open>i\<close>, its first node is \<open>0\<close> and its last node is the
  axis length.
\<close>

theorem unit_lattice_nodes:
  assumes "shape Voxel3D = (d0, d1, d2)"
  shows "X_sample (XYZ_SampleStruct Voxel3D) = map real [0..<d0 + 1]
       \<and> Y_sample (XYZ_SampleStruct Voxel3D) = map real [0..<d1 + 1]
       \<and> Z_sample (XYZ_SampleStruct Voxel3D) = map real [0..<d2 + 1]
       \<and> length (X_sample (XYZ_SampleStruct Voxel3D)) = d0 + 1
       \<and> length (Y_sample (XYZ_SampleStruct Voxel3D)) = d1 + 1
       \<and> length (Z_sample (XYZ_SampleStruct Voxel3D)) = d2 + 1
       \<and> (\<forall>i \<le> d0. X_sample (XYZ_SampleStruct Voxel3D) ! i = real i)
       \<and> (\<forall>j \<le> d1. Y_sample (XYZ_SampleStruct Voxel3D) ! j = real j)
       \<and> (\<forall>k \<le> d2. Z_sample (XYZ_SampleStruct Voxel3D) ! k = real k)
       \<and> hd (X_sample (XYZ_SampleStruct Voxel3D)) = 0
       \<and> hd (Y_sample (XYZ_SampleStruct Voxel3D)) = 0
       \<and> hd (Z_sample (XYZ_SampleStruct Voxel3D)) = 0
       \<and> last (X_sample (XYZ_SampleStruct Voxel3D)) = real d0
       \<and> last (Y_sample (XYZ_SampleStruct Voxel3D)) = real d1
       \<and> last (Z_sample (XYZ_SampleStruct Voxel3D)) = real d2"
  using assms
  by (simp add: XYZ_SampleStruct_def arange_length arange_nth arange_Suc_last arange_Suc_hd
        arange_def [symmetric] less_Suc_eq_le [symmetric] del: upt_Suc)

theorem unit_lattice_nodes_witness:
  "shape (uniform_grid 2 3 4 1) = (2, 3, 4)
   \<and> X_sample (XYZ_SampleStruct (uniform_grid 2 3 4 1)) = [0, 1, 2]
   \<and> Y_sample (XYZ_SampleStruct (uniform_grid 2 3 4 1)) = [0, 1, 2, 3]
   \<and> Z_sample (XYZ_SampleStruct (uniform_grid 2 3 4 1)) = [0, 1, 2, 3, 4]
   \<and> last (X_sample (XYZ_SampleStruct (uniform_grid 2 3 4 1))) = 2"
proof -
  have h: "shape (uniform_grid 2 3 4 1) = (2, 3, 4)"
    by (simp add: uniform_grid_def)
  have u: "map real [0..<3] = [0, 1, 2]" "map real [0..<4] = [0, 1, 2, 3]"
    "map real [0..<5] = [0, 1, 2, 3, 4]"
    by (simp_all add: upt_rec)
  show ?thesis
    using h unit_lattice_nodes [OF h] by (simp add: u)
qed

section \<open>The pipeline and the normalization table\<close>

text \<open>
  C10: the output of the direct descriptor pipeline does not depend on \<^verbatim>\<open>CLMCache\<close>:
  two runs that differ only in the contents of that table return the same result,
  whatever the library operations are.
\<close>

theorem OneTimeConversion_ignores_CLMCache:
  "OneTimeConversion z (g\<lparr>CLMCache := c\<rparr>) Voxel3D MaxOrder
     = OneTimeConversion z g Voxel3D MaxOrder"
  by (simp add: OneTimeConversion_def cong: sum.case_cong prod.case_cong)

theorem OneTimeConversion_ignores_CLMCache_witness:
  "OneTimeConversion constant_lib (empty_globals\<lparr>CLMCache := [1, 2]\<rparr>) (uniform_grid 2 2 2 1) 20
     = OneTimeConversion constant_lib empty_globals (uniform_grid 2 2 2 1) 20"
  by (rule OneTimeConversion_ignores_CLMCache)

section \<open>The call sequence of the pipeline\<close>

text \<open>
  The pipeline returns a vector exactly when its six library calls succeed in sequence,
  each on the results of the calls before it, and the vector is the NaN-filtered
  descriptor.
\<close>

lemma OneTimeConversion_Inr_iff:
  "OneTimeConversion z g Voxel3D MaxOrder = Inr d \<longleftrightarrow>
     (\<exists>VolumeMass Center T1 Average Maximum Sphere mass2 center2 SphereBBoxMoment
                ZMoment_scaled ZMoment_raw ZM_3DZD_invariant.
               calculate_bbox_moment z Voxel3D 1 (XYZ_SampleStruct Voxel3D)
                 = Inr (VolumeMass, Center, T1)
             \<and> calculate_molecular_radius z Voxel3D Center VolumeMass
                   (default_radius_multiplier (Param g)) = Inr (Average, Maximum)
             \<and> get_bbox_moment_xyz_sample z Center Average (shape Voxel3D) = Inr Sphere
             \<and> calculate_bbox_moment z Voxel3D MaxOrder Sphere
                 = Inr (mass2, center2, SphereBBoxMoment)
             \<and> calculate_bbox_moment_2_zm z MaxOrder (GCache_complex g) (GCache_pqr_linear g)
                   (GCache_complex_index g) (CLMCache3D g) SphereBBoxMoment
                 = Inr (ZMoment_scaled, ZMoment_raw)
             \<and> get_3dzd_121_descriptor z ZMoment_scaled = Inr ZM_3DZD_invariant
             \<and> d = nan_filter ZM_3DZD_invariant)"
  by (auto simp: OneTimeConversion_def split: sum.splits prod.splits)

section \<open>The NaN filter\<close>

lemma isnan_iff: "isnan c \<longleftrightarrow> c = NaN"
  by (cases c) simp_all

lemma nan_filter_set: "set (nan_filter x) = set x - {NaN}"
  by (auto simp: nan_filter_def isnan_iff)

lemma nan_filter_count: "count_list (nan_filter x) (Num v) = count_list x (Num v)"
  by (induction x) (simp_all add: nan_filter_def)

lemma nan_filter_length: "length (nan_filter x) + count_list x NaN = length x"
  by (induction x) (auto simp: nan_filter_def isnan_iff)

lemma nan_filter_subseq: "subseq (nan_filter x) x"
  by (simp add: nan_filter_def)

lemma MomentInvariant_filter: "MomentInvariant ZMList = nan_filter (concat ZMList)"
  unfolding MomentInvariant_def by (induction ZMList) (simp_all add: nan_filter_def)

lemma OneTimeConversion_Inr:
  assumes "OneTimeConversion z g Voxel3D MaxOrder = Inr d"
  shows "\<exists>inv. d = nan_filter inv"
  using assms
  by (auto simp: OneTimeConversion_def split: sum.splits prod.splits)

lemma OneTimeConversion_filtered:
  assumes "OneTimeConversion z g Voxel3D MaxOrder = Inr d"
  shows "(\<exists>VolumeMass Center T1 Average Maximum Sphere mass2 center2 SphereBBoxMoment
                ZMoment_scaled ZMoment_raw ZM_3DZD_invariant.
               calculate_bbox_moment z Voxel3D 1 (XYZ_SampleStruct Voxel3D)
                 = Inr (VolumeMass, Center, T1)
             \<and> calculate_molecular_radius z Voxel3D Center VolumeMass
                   (default_radius_multiplier (Param g)) = Inr (Average, Maximum)
             \<and> get_bbox_moment_xyz_sample z Center Average (shape Voxel3D) = Inr Sphere
             \<and> calculate_bbox_moment z Voxel3D MaxOrder Sphere
                 = Inr (mass2, center2, SphereBBoxMoment)
             \<and> calculate_bbox_moment_2_zm z MaxOrder (GCache_complex g) (GCache_pqr_linear g)
                   (GCache_complex_index g) (CLMCache3D g) SphereBBoxMoment
                 = Inr (ZMoment_scaled, ZMoment_raw)
             \<and> get_3dzd_121_descriptor z ZMoment_scaled = Inr ZM_3DZD_invariant
             \<and> d = nan_filter ZM_3DZD_invariant
             \<and> NaN \<notin> set d
             \<and> subseq d ZM_3DZD_invariant
             \<and> (\<forall>v. count_list d (Num v) = count_list ZM_3DZD_invariant (Num v))
             \<and> length d + count_list ZM_3DZD_invariant NaN = length ZM_3DZD_invariant)"
proof -
  from assms obtain VolumeMass Center T1 Average Maximum Sphere mass2 center2 SphereBBoxMoment
      ZMoment_scaled ZMoment_raw ZM_3DZD_invariant
    where c: "calculate_bbox_moment z Voxel3D 1 (XYZ_SampleStruct Voxel3D)
                = Inr (VolumeMass, Center, T1)"
        "calculate_molecular_radius z Voxel3D Center VolumeMass
           (default_radius_multiplier (Param g)) = Inr (Average, Maximum)"
        "get_bbox_moment_xyz_sample z Center Average (shape Voxel3D) = Inr Sphere"
        "calculate_bbox_moment z Voxel3D MaxOrder Sphere = Inr (mass2, center2, SphereBBoxMoment)"
        "calculate_bbox_moment_2_zm z MaxOrder (GCache_complex g) (GCache_pqr_linear g)
           (GCache_complex_index g) (CLMCache3D g) SphereBBoxMoment
           = Inr (ZMoment_scaled, ZMoment_raw)"
        "get_3dzd_121_descriptor z ZMoment_scaled = Inr ZM_3DZD_invariant"
      and d: "d = nan_filter ZM_3DZD_invariant"
    unfolding OneTimeConversion_Inr_iff by blast
  have "NaN \<notin> set d" and "subseq d ZM_3DZD_invariant"
    and "\<forall>v. count_list d (Num v) = count_list ZM_3DZD_invariant (Num v)"
    and "length d + count_list ZM_3DZD_invariant NaN = length ZM_3DZD_invariant"
    unfolding d
    by (simp_all add: nan_filter_set nan_filter_subseq nan_filter_count nan_filter_length)
  with c d show ?thesis
    by blast
qed

text \<open>
  C5: the NaN filter of the pipelines deletes the NaN cells and nothing else: the result
  has no NaN cell, it is the input with cells left out (a subsequence), every number
  occurs in it as often as in the input (so no NaN is turned into a zero), and its length
  is the number of cells that are not NaN.  \<^verbatim>\<open>OneTimeConversion\<close> returns a vector exactly
  when its library calls succeed in sequence, and the vector is then the result of
  \<^verbatim>\<open>get_3dzd_121_descriptor\<close> on the scaled moments with exactly its NaN cells left out;
  the \<^verbatim>\<open>MomentInvariant\<close> vector of the shape-score notebook is the concatenation of the
  descriptors of \<^verbatim>\<open>ZMList\<close> with exactly its NaN cells left out.
\<close>

theorem descriptor_has_no_nan:
  "NaN \<notin> set (nan_filter x)
   \<and> subseq (nan_filter x) x
   \<and> (\<forall>v. count_list (nan_filter x) (Num v) = count_list x (Num v))
   \<and> length (nan_filter x) + count_list x NaN = length x
   \<and> (OneTimeConversion z g Voxel3D MaxOrder = Inr d \<longrightarrow> NaN \<notin> set d)
   \<and> NaN \<notin> set (MomentInvariant ZMList)
   \<and> (OneTimeConversion z g Voxel3D MaxOrder = Inr d \<longleftrightarrow>
        (\<exists>VolumeMass Center T1 Average Maximum Sphere mass2 center2 SphereBBoxMoment
                  ZMoment_scaled ZMoment_raw ZM_3DZD_invariant.
                 calculate_bbox_moment z Voxel3D 1 (XYZ_SampleStruct Voxel3D)
                   = Inr (VolumeMass, Center, T1)
               \<and> calculate_molecular_radius z Voxel3D Center VolumeMass
                     (default_radius_multiplier (Param g)) = Inr (Average, Maximum)
               \<and> get_bbox_moment_xyz_sample z Center Average (shape Voxel3D) = Inr Sphere
               \<and> calculate_bbox_moment z Voxel3D MaxOrder Sphere
                   = Inr (mass2, center2, SphereBBoxMoment)
               \<and> calculate_bbox_moment_2_zm z MaxOrder (GCache_complex g) (GCache_pqr_linear g)
                     (GCache_complex_index g) (CLMCache3D g) SphereBBoxMoment
                   = Inr (ZMoment_scaled, ZMoment_raw)
               \<and> get_3dzd_121_descriptor z ZMoment_scaled = Inr ZM_3DZD_invariant
               \<and> d = nan_filter ZM_3DZD_invariant))
   \<and> (OneTimeConversion z g Voxel3D MaxOrder = Inr d \<longrightarrow>
        (\<exists>VolumeMass Center T1 Average Maximum Sphere mass2 center2 SphereBBoxMoment
                  ZMoment_scaled ZMoment_raw ZM_3DZD_invariant.
                 calculate_bbox_moment z Voxel3D 1 (XYZ_SampleStruct Voxel3D)
                   = Inr (VolumeMass, Center, T1)
               \<and> calculate_molecular_radius z Voxel3D Center VolumeMass
                     (default_radius_multiplier (Param g)) = Inr (Average, Maximum)
               \<and> get_bbox_moment_xyz_sample z Center Average (shape Voxel3D) = Inr Sphere
               \<and> calculate_bbox_moment z Voxel3D MaxOrder Sphere
                   = Inr (mass2, center2, SphereBBoxMoment)
               \<and> calculate_bbox_moment_2_zm z MaxOrder (GCache_complex g) (GCache_pqr_linear g)
                     (GCache_complex_index g) (CLMCache3D g) SphereBBoxMoment
                   = Inr (ZMoment_scaled, ZMoment_raw)
               \<and> get_3dzd_121_descriptor z ZMoment_scaled = Inr ZM_3DZD_invariant
               \<and> d = nan_filter ZM_3DZD_invariant
               \<and> NaN \<notin> set d
               \<and> subseq d ZM_3DZD_invariant
               \<and> (\<forall>v. count_list d (Num v) = count_list ZM_3DZD_invariant (Num v))
               \<and> length d + count_list ZM_3DZD_invariant NaN = length ZM_3DZD_invariant))
   \<and> MomentInvariant ZMList = nan_filter (concat ZMList)
   \<and> subseq (MomentInvariant ZMList) (concat ZMList)
   \<and> (\<forall>v. count_list (MomentInvariant ZMList) (Num v) = count_list (concat ZMList) (Num v))
   \<and> length (MomentInvariant ZMList) + count_list (concat ZMList) NaN = length (concat ZMList)"
proof (intro conjI)
  show "OneTimeConversion z g Voxel3D MaxOrder = Inr d \<longrightarrow> NaN \<notin> set d"
    using OneTimeConversion_Inr [of z g Voxel3D MaxOrder d] by (auto simp: nan_filter_set)
  show "OneTimeConversion z g Voxel3D MaxOrder = Inr d \<longleftrightarrow>
        (\<exists>VolumeMass Center T1 Average Maximum Sphere mass2 center2 SphereBBoxMoment
                  ZMoment_scaled ZMoment_raw ZM_3DZD_invariant.
                 calculate_bbox_moment z Voxel3D 1 (XYZ_SampleStruct Voxel3D)
                   = Inr (VolumeMass, Center, T1)
               \<and> calculate_molecular_radius z Voxel3D Center VolumeMass
                     (default_radius_multiplier (Param g)) = Inr (Average, Maximum)
               \<and> get_bbox_moment_xyz_sample z Center Average (shape Voxel3D) = Inr Sphere
               \<and> calculate_bbox_moment z Voxel3D MaxOrder Sphere
                   = Inr (mass2, center2, SphereBBoxMoment)
               \<and> calculate_bbox_moment_2_zm z MaxOrder (GCache_complex g) (GCache_pqr_linear g)
                     (GCache_complex_index g) (CLMCache3D g) SphereBBoxMoment
                   = Inr (ZMoment_scaled, ZMoment_raw)
               \<and> get_3dzd_121_descriptor z ZMoment_scaled = Inr ZM_3DZD_invariant
               \<and> d = nan_filter ZM_3DZD_invariant)"
    by (rule OneTimeConversion_Inr_iff)
  show "OneTimeConversion z g Voxel3D MaxOrder = Inr d \<longrightarrow>
        (\<exists>VolumeMass Center T1 Average Maximum Sphere mass2 center2 SphereBBoxMoment
                  ZMoment_scaled ZMoment_raw ZM_3DZD_invariant.
                 calculate_bbox_moment z Voxel3D 1 (XYZ_SampleStruct Voxel3D)
                   = Inr (VolumeMass, Center, T1)
               \<and> calculate_molecular_radius z Voxel3D Center VolumeMass
                     (default_radius_multiplier (Param g)) = Inr (Average, Maximum)
               \<and> get_bbox_moment_xyz_sample z Center Average (shape Voxel3D) = Inr Sphere
               \<and> calculate_bbox_moment z Voxel3D MaxOrder Sphere
                   = Inr (mass2, center2, SphereBBoxMoment)
               \<and> calculate_bbox_moment_2_zm z MaxOrder (GCache_complex g) (GCache_pqr_linear g)
                     (GCache_complex_index g) (CLMCache3D g) SphereBBoxMoment
                   = Inr (ZMoment_scaled, ZMoment_raw)
               \<and> get_3dzd_121_descriptor z ZMoment_scaled = Inr ZM_3DZD_invariant
               \<and> d = nan_filter ZM_3DZD_invariant
               \<and> NaN \<notin> set d
               \<and> subseq d ZM_3DZD_invariant
               \<and> (\<forall>v. count_list d (Num v) = count_list ZM_3DZD_invariant (Num v))
               \<and> length d + count_list ZM_3DZD_invariant NaN = length ZM_3DZD_invariant)"
    by (rule impI) (rule OneTimeConversion_filtered)
qed (simp_all add: MomentInvariant_filter nan_filter_set nan_filter_count nan_filter_length
       nan_filter_subseq)

theorem descriptor_has_no_nan_witness:
  "OneTimeConversion constant_lib empty_globals (uniform_grid 2 2 2 1) 20 = Inr [Num 0]
   \<and> get_3dzd_121_descriptor constant_lib (zero_moments 20) = Inr [NaN, Num 0, NaN]
   \<and> nan_filter [NaN, Num 0, NaN] = [Num 0]
   \<and> subseq [Num 0] [NaN, Num 0, NaN]
   \<and> MomentInvariant [[NaN, Num 0, NaN], [NaN], [Num 2]] = [Num 0, Num 2]
   \<and> NaN \<notin> set [Num 0]"
proof -
  let ?G = "uniform_grid 2 2 2 1"
  let ?S = "\<lparr>X_sample = arange 3, Y_sample = arange 3, Z_sample = arange 3\<rparr>"
  have c1: "calculate_bbox_moment constant_lib ?G 1 (XYZ_SampleStruct ?G)
              = Inr (1, (0, 0, 0), (\<lambda>pqr. Some 0))"
    and c2: "calculate_molecular_radius constant_lib ?G (0, 0, 0) 1
               (default_radius_multiplier (Param empty_globals)) = Inr (1, 1)"
    and c3: "get_bbox_moment_xyz_sample constant_lib (0, 0, 0) 1 (shape ?G) = Inr ?S"
    and c4: "calculate_bbox_moment constant_lib ?G 20 ?S = Inr (1, (0, 0, 0), (\<lambda>pqr. Some 0))"
    and c5: "calculate_bbox_moment_2_zm constant_lib 20 (GCache_complex empty_globals)
               (GCache_pqr_linear empty_globals) (GCache_complex_index empty_globals)
               (CLMCache3D empty_globals) (\<lambda>pqr. Some 0)
               = Inr (zero_moments 20, zero_moments 20)"
    and c6: "get_3dzd_121_descriptor constant_lib (zero_moments 20) = Inr [NaN, Num 0, NaN]"
    by (simp_all add: constant_lib_def)
  have f: "nan_filter [NaN, Num 0, NaN] = [Num 0]"
    by (simp add: nan_filter_def)
  note th = descriptor_has_no_nan [of "[NaN, Num 0, NaN]" constant_lib empty_globals ?G 20
      "[Num 0]" "[[NaN, Num 0, NaN], [NaN], [Num 2]]"]
  from th have iff: "OneTimeConversion constant_lib empty_globals ?G 20 = Inr [Num 0] \<longleftrightarrow>
        (\<exists>VolumeMass Center T1 Average Maximum Sphere mass2 center2 SphereBBoxMoment
                  ZMoment_scaled ZMoment_raw ZM_3DZD_invariant.
                 calculate_bbox_moment constant_lib ?G 1 (XYZ_SampleStruct ?G)
                   = Inr (VolumeMass, Center, T1)
               \<and> calculate_molecular_radius constant_lib ?G Center VolumeMass
                     (default_radius_multiplier (Param empty_globals)) = Inr (Average, Maximum)
               \<and> get_bbox_moment_xyz_sample constant_lib Center Average (shape ?G) = Inr Sphere
               \<and> calculate_bbox_moment constant_lib ?G 20 Sphere
                   = Inr (mass2, center2, SphereBBoxMoment)
               \<and> calculate_bbox_moment_2_zm constant_lib 20 (GCache_complex empty_globals) (GCache_pqr_linear empty_globals)
                     (GCache_complex_index empty_globals) (CLMCache3D empty_globals) SphereBBoxMoment
                   = Inr (ZMoment_scaled, ZMoment_raw)
               \<and> get_3dzd_121_descriptor constant_lib ZMoment_scaled = Inr ZM_3DZD_invariant
               \<and> [Num 0] = nan_filter ZM_3DZD_invariant)"
    by (elim conjE)
  have run: "OneTimeConversion constant_lib empty_globals ?G 20 = Inr [Num 0]"
    unfolding iff using c1 c2 c3 c4 c5 c6 f by (intro exI conjI) (assumption | simp)+
  from th have "subseq (nan_filter [NaN, Num 0, NaN]) [NaN, Num 0, NaN]"
    by (elim conjE)
  then have s: "subseq [Num 0] [NaN, Num 0, NaN]"
    by (simp only: f)
  from th run have n: "NaN \<notin> set [Num 0]"
    by (elim conjE) (erule (1) mp)
  have m: "MomentInvariant [[NaN, Num 0, NaN], [NaN], [Num 2]] = [Num 0, Num 2]"
    by (simp add: MomentInvariant_def nan_filter_def)
  show ?thesis
    by (intro conjI run c6 f s m n)
qed

section \<open>The first moment pass\<close>

lemma moment_000: "moment grid S (0, 0, 0) = total_mass grid"
  by (simp add: moment_def total_mass_def split: prod.splits)

lemma zero_grid_mass: "(\<forall>i j k. cells grid i j k = 0) \<Longrightarrow> total_mass grid = 0"
  by (simp add: total_mass_def split: prod.splits)

lemma computeMoments_zero_mass:
  "total_mass grid = 0 \<Longrightarrow> computeMoments grid Order S = Inl DegenerateInputError"
  by (simp add: computeMoments_def moment_000)

lemma OneTimeConversion_first_pass_fails:
  "calculate_bbox_moment z Voxel3D 1 (XYZ_SampleStruct Voxel3D) = Inl e
     \<Longrightarrow> OneTimeConversion z g Voxel3D MaxOrder = Inl e"
  by (simp add: OneTimeConversion_def)

text \<open>
  C6: on a voxel grid whose total mass is zero, in particular on an all-zero grid,
  \<^verbatim>\<open>computeMoments\<close> fails with \<open>DegenerateInputError\<close> at any order and on any
  lattice, and the pipeline stops with that error at its first call.
\<close>

theorem zero_mass_is_degenerate:
  assumes "total_mass grid = 0 \<or> (\<forall>i j k. cells grid i j k = 0)"
  shows "computeMoments grid Order S = Inl DegenerateInputError
       \<and> OneTimeConversion (design_lib z) g grid MaxOrder = Inl DegenerateInputError"
proof -
  from assms have m: "total_mass grid = 0"
    using zero_grid_mass by blast
  have "calculate_bbox_moment (design_lib z) grid 1 (XYZ_SampleStruct grid)
          = Inl DegenerateInputError"
    by (simp add: design_lib_def computeMoments_zero_mass [OF m])
  then show ?thesis
    by (simp add: computeMoments_zero_mass [OF m] OneTimeConversion_first_pass_fails)
qed

theorem zero_mass_is_degenerate_witness:
  "total_mass (uniform_grid 2 2 2 0) = 0
   \<and> (\<forall>i j k. cells (uniform_grid 2 2 2 0) i j k = 0)
   \<and> computeMoments (uniform_grid 2 2 2 0) 1 (XYZ_SampleStruct (uniform_grid 2 2 2 0))
       = Inl DegenerateInputError
   \<and> OneTimeConversion (design_lib constant_lib) empty_globals (uniform_grid 2 2 2 0) 20
       = Inl DegenerateInputError"
proof -
  have z: "\<forall>i j k. cells (uniform_grid 2 2 2 0) i j k = 0"
    by (simp add: uniform_grid_def)
  have m: "total_mass (uniform_grid 2 2 2 0) = 0"
    by (simp add: total_mass_def uniform_grid_def)
  show ?thesis
    using z m zero_mass_is_degenerate [of "uniform_grid 2 2 2 0"] by blast
qed

lemma computeMoments_Inr:
  assumes "computeMoments grid Order S = Inr (mass, center, T)"
  shows "mass = moment grid S (0, 0, 0)" and "mass \<noteq> 0"
    and "center = (moment grid S (1, 0, 0) / mass, moment grid S (0, 1, 0) / mass,
                   moment grid S (0, 0, 1) / mass)"
    and "T = (\<lambda>(p, q, r). if p + q + r \<le> Order then Some (moment grid S (p, q, r)) else None)"
  using assms by (auto simp: computeMoments_def Let_def split: if_splits)

lemma OneTimeConversion_order1_tensor:
  assumes "MaxOrder \<noteq> 1"
  shows "OneTimeConversion (replace_order1_tensor T' z) g Voxel3D MaxOrder
           = OneTimeConversion z g Voxel3D MaxOrder"
  using assms
  by (auto simp: OneTimeConversion_def replace_order1_tensor_def split: sum.splits prod.splits)

lemma order1_dom:
  "dom (\<lambda>(p, q, r). if p + q + r \<le> (1::nat) then Some (f p q r) else None)
     = {(0, 0, 0), (1, 0, 0), (0, 1, 0), (0, 0, 1)}" (is "?L = ?R")
proof (rule set_eqI)
  fix x :: "nat \<times> nat \<times> nat"
  obtain p q r where x: "x = (p, q, r)"
    by (cases x) auto
  have "p + q + r \<le> 1 \<longleftrightarrow> (p = 0 \<and> q = 0 \<and> r = 0) \<or> (p = 1 \<and> q = 0 \<and> r = 0)
          \<or> (p = 0 \<and> q = 1 \<and> r = 0) \<or> (p = 0 \<and> q = 0 \<and> r = 1)"
    by arith
  then show "x \<in> ?L \<longleftrightarrow> x \<in> ?R"
    by (simp add: x dom_def)
qed

lemma computeMoments_order1_dom:
  assumes "computeMoments grid 1 S = Inr (mass, center, T)"
  shows "dom T = {(0, 0, 0), (1, 0, 0), (0, 1, 0), (0, 0, 1)}"
  unfolding computeMoments_Inr(4) [OF assms] by (rule order1_dom)

lemma OneTimeConversion_design_chain:
  assumes "OneTimeConversion (design_lib z) g Voxel3D MaxOrder = Inr d"
  shows "(\<exists>T1 Average Maximum Sphere mass2 center2 SphereBBoxMoment ZMoment_scaled ZMoment_raw.
               computeMoments Voxel3D 1 (XYZ_SampleStruct Voxel3D)
                 = Inr (total_mass Voxel3D,
                        (moment Voxel3D (XYZ_SampleStruct Voxel3D) (1, 0, 0) / total_mass Voxel3D,
                         moment Voxel3D (XYZ_SampleStruct Voxel3D) (0, 1, 0) / total_mass Voxel3D,
                         moment Voxel3D (XYZ_SampleStruct Voxel3D) (0, 0, 1) / total_mass Voxel3D),
                        T1)
             \<and> dom T1 = {(0, 0, 0), (1, 0, 0), (0, 1, 0), (0, 0, 1)}
             \<and> calculate_molecular_radius z Voxel3D
                   (moment Voxel3D (XYZ_SampleStruct Voxel3D) (1, 0, 0) / total_mass Voxel3D,
                    moment Voxel3D (XYZ_SampleStruct Voxel3D) (0, 1, 0) / total_mass Voxel3D,
                    moment Voxel3D (XYZ_SampleStruct Voxel3D) (0, 0, 1) / total_mass Voxel3D)
                   (total_mass Voxel3D) (default_radius_multiplier (Param g))
                 = Inr (Average, Maximum)
             \<and> get_bbox_moment_xyz_sample z
                   (moment Voxel3D (XYZ_SampleStruct Voxel3D) (1, 0, 0) / total_mass Voxel3D,
                    moment Voxel3D (XYZ_SampleStruct Voxel3D) (0, 1, 0) / total_mass Voxel3D,
                    moment Voxel3D (XYZ_SampleStruct Voxel3D) (0, 0, 1) / total_mass Voxel3D)
                   Average (shape Voxel3D)
                 = Inr Sphere
             \<and> computeMoments Voxel3D MaxOrder Sphere = Inr (mass2, center2, SphereBBoxMoment)
             \<and> calculate_bbox_moment_2_zm z MaxOrder (GCache_complex g) (GCache_pqr_linear g)
                   (GCache_complex_index g) (CLMCache3D g) SphereBBoxMoment
                 = Inr (ZMoment_scaled, ZMoment_raw)
             \<and> d = nan_filter (directInvariant ZMoment_scaled))"
proof -
  from assms obtain VolumeMass Center T1 Average Maximum Sphere mass2 center2 SphereBBoxMoment
      ZMoment_scaled ZMoment_raw ZM_3DZD_invariant
    where c1: "computeMoments Voxel3D 1 (XYZ_SampleStruct Voxel3D) = Inr (VolumeMass, Center, T1)"
      and c2: "calculate_molecular_radius z Voxel3D Center VolumeMass
                 (default_radius_multiplier (Param g)) = Inr (Average, Maximum)"
      and c3: "get_bbox_moment_xyz_sample z Center Average (shape Voxel3D) = Inr Sphere"
      and c4: "computeMoments Voxel3D MaxOrder Sphere = Inr (mass2, center2, SphereBBoxMoment)"
      and c5: "calculate_bbox_moment_2_zm z MaxOrder (GCache_complex g) (GCache_pqr_linear g)
                 (GCache_complex_index g) (CLMCache3D g) SphereBBoxMoment
                 = Inr (ZMoment_scaled, ZMoment_raw)"
      and c6: "Inr (directInvariant ZMoment_scaled) = (Inr ZM_3DZD_invariant :: error + fval list)"
      and d: "d = nan_filter ZM_3DZD_invariant"
    unfolding OneTimeConversion_Inr_iff by (auto simp: design_lib_def)
  note r = computeMoments_Inr [OF c1]
  have m: "VolumeMass = total_mass Voxel3D"
    by (simp add: r(1) moment_000)
  have c: "Center = (moment Voxel3D (XYZ_SampleStruct Voxel3D) (1, 0, 0) / total_mass Voxel3D,
                     moment Voxel3D (XYZ_SampleStruct Voxel3D) (0, 1, 0) / total_mass Voxel3D,
                     moment Voxel3D (XYZ_SampleStruct Voxel3D) (0, 0, 1) / total_mass Voxel3D)"
    unfolding m [symmetric] by (rule r(3))
  have t: "dom T1 = {(0, 0, 0), (1, 0, 0), (0, 1, 0), (0, 0, 1)}"
    by (rule computeMoments_order1_dom [OF c1])
  from c6 have i: "ZM_3DZD_invariant = directInvariant ZMoment_scaled"
    by simp
  show ?thesis
    using c1 c2 c3 c4 c5 t d unfolding m c i by blast
qed

text \<open>
  C3: at order 1 \<^verbatim>\<open>computeMoments\<close> returns the total mass as the \<open>(0, 0, 0)\<close> moment and
  the center of mass as the ratios of the three first-order moments to the mass, and the
  tensor it returns is populated at the four indices of order at most 1 only.  The
  pipeline does not consume the tensor of that pass: replacing it by any other tensor
  leaves the result unchanged.  The pipeline returns a vector exactly when its calls
  succeed in this sequence: the first pass at order 1 on the unit lattice; the radius from
  the mass and center of that pass; the sphere lattice from that center and radius; the
  second pass at \<^verbatim>\<open>MaxOrder\<close> on the sphere lattice; the Zernike transform on the tensor of
  the second pass; the descriptor.  A failure of the first pass is the failure of the
  pipeline.  With the operations of the design, the mass and center that the radius and
  the sphere lattice receive are the total mass of the grid and the ratios of its
  first-order moments on the unit lattice.
\<close>

theorem first_pass_mass_and_center:
  assumes "computeMoments grid 1 S = Inr (mass, center, T)" and "MaxOrder \<noteq> 1"
  shows "mass = total_mass grid
       \<and> T (0, 0, 0) = Some mass
       \<and> (\<exists>mx my mz. T (1, 0, 0) = Some mx \<and> T (0, 1, 0) = Some my \<and> T (0, 0, 1) = Some mz
            \<and> center = (mx / mass, my / mass, mz / mass))
       \<and> (\<forall>p q r. T (p, q, r) \<noteq> None \<longleftrightarrow> p + q + r \<le> 1)
       \<and> dom T = {(0, 0, 0), (1, 0, 0), (0, 1, 0), (0, 0, 1)}
       \<and> OneTimeConversion (replace_order1_tensor T' z) g Voxel3D MaxOrder
            = OneTimeConversion z g Voxel3D MaxOrder
       \<and> (OneTimeConversion z g Voxel3D MaxOrder = Inr d \<longleftrightarrow>
            (\<exists>VolumeMass Center T1 Average Maximum Sphere mass2 center2 SphereBBoxMoment
                      ZMoment_scaled ZMoment_raw ZM_3DZD_invariant.
                     calculate_bbox_moment z Voxel3D 1 (XYZ_SampleStruct Voxel3D)
                       = Inr (VolumeMass, Center, T1)
                   \<and> calculate_molecular_radius z Voxel3D Center VolumeMass
                         (default_radius_multiplier (Param g)) = Inr (Average, Maximum)
                   \<and> get_bbox_moment_xyz_sample z Center Average (shape Voxel3D) = Inr Sphere
                   \<and> calculate_bbox_moment z Voxel3D MaxOrder Sphere
                       = Inr (mass2, center2, SphereBBoxMoment)
                   \<and> calculate_bbox_moment_2_zm z MaxOrder (GCache_complex g) (GCache_pqr_linear g)
                         (GCache_complex_index g) (CLMCache3D g) SphereBBoxMoment
                       = Inr (ZMoment_scaled, ZMoment_raw)
                   \<and> get_3dzd_121_descriptor z ZMoment_scaled = Inr ZM_3DZD_invariant
                   \<and> d = nan_filter ZM_3DZD_invariant))
       \<and> (calculate_bbox_moment z Voxel3D 1 (XYZ_SampleStruct Voxel3D) = Inl e
            \<longrightarrow> OneTimeConversion z g Voxel3D MaxOrder = Inl e)
       \<and> (OneTimeConversion (design_lib z) g Voxel3D MaxOrder = Inr d \<longrightarrow>
            (\<exists>T1 Average Maximum Sphere mass2 center2 SphereBBoxMoment ZMoment_scaled ZMoment_raw.
               computeMoments Voxel3D 1 (XYZ_SampleStruct Voxel3D)
                 = Inr (total_mass Voxel3D,
                        (moment Voxel3D (XYZ_SampleStruct Voxel3D) (1, 0, 0) / total_mass Voxel3D,
                         moment Voxel3D (XYZ_SampleStruct Voxel3D) (0, 1, 0) / total_mass Voxel3D,
                         moment Voxel3D (XYZ_SampleStruct Voxel3D) (0, 0, 1) / total_mass Voxel3D),
                        T1)
             \<and> dom T1 = {(0, 0, 0), (1, 0, 0), (0, 1, 0), (0, 0, 1)}
             \<and> calculate_molecular_radius z Voxel3D
                   (moment Voxel3D (XYZ_SampleStruct Voxel3D) (1, 0, 0) / total_mass Voxel3D,
                    moment Voxel3D (XYZ_SampleStruct Voxel3D) (0, 1, 0) / total_mass Voxel3D,
                    moment Voxel3D (XYZ_SampleStruct Voxel3D) (0, 0, 1) / total_mass Voxel3D)
                   (total_mass Voxel3D) (default_radius_multiplier (Param g))
                 = Inr (Average, Maximum)
             \<and> get_bbox_moment_xyz_sample z
                   (moment Voxel3D (XYZ_SampleStruct Voxel3D) (1, 0, 0) / total_mass Voxel3D,
                    moment Voxel3D (XYZ_SampleStruct Voxel3D) (0, 1, 0) / total_mass Voxel3D,
                    moment Voxel3D (XYZ_SampleStruct Voxel3D) (0, 0, 1) / total_mass Voxel3D)
                   Average (shape Voxel3D)
                 = Inr Sphere
             \<and> computeMoments Voxel3D MaxOrder Sphere = Inr (mass2, center2, SphereBBoxMoment)
             \<and> calculate_bbox_moment_2_zm z MaxOrder (GCache_complex g) (GCache_pqr_linear g)
                   (GCache_complex_index g) (CLMCache3D g) SphereBBoxMoment
                 = Inr (ZMoment_scaled, ZMoment_raw)
             \<and> d = nan_filter (directInvariant ZMoment_scaled)))"
proof -
  note r = computeMoments_Inr [OF assms(1)]
  have m: "mass = total_mass grid"
    by (simp add: r(1) moment_000)
  have t0: "T (0, 0, 0) = Some mass"
    by (simp add: r(4) r(1))
  have c: "\<exists>mx my mz. T (1, 0, 0) = Some mx \<and> T (0, 1, 0) = Some my \<and> T (0, 0, 1) = Some mz
            \<and> center = (mx / mass, my / mass, mz / mass)"
    by (simp add: r(4) r(3))
  have p: "\<forall>p q r. T (p, q, r) \<noteq> None \<longleftrightarrow> p + q + r \<le> 1"
    by (simp add: r(4))
  have d: "dom T = {(0, 0, 0), (1, 0, 0), (0, 1, 0), (0, 0, 1)}"
    by (rule computeMoments_order1_dom [OF assms(1)])
  have f: "calculate_bbox_moment z Voxel3D 1 (XYZ_SampleStruct Voxel3D) = Inl e
            \<longrightarrow> OneTimeConversion z g Voxel3D MaxOrder = Inl e"
    by (rule impI) (rule OneTimeConversion_first_pass_fails)
  have s: "OneTimeConversion (design_lib z) g Voxel3D MaxOrder = Inr d \<longrightarrow>
            (\<exists>T1 Average Maximum Sphere mass2 center2 SphereBBoxMoment ZMoment_scaled ZMoment_raw.
               computeMoments Voxel3D 1 (XYZ_SampleStruct Voxel3D)
                 = Inr (total_mass Voxel3D,
                        (moment Voxel3D (XYZ_SampleStruct Voxel3D) (1, 0, 0) / total_mass Voxel3D,
                         moment Voxel3D (XYZ_SampleStruct Voxel3D) (0, 1, 0) / total_mass Voxel3D,
                         moment Voxel3D (XYZ_SampleStruct Voxel3D) (0, 0, 1) / total_mass Voxel3D),
                        T1)
             \<and> dom T1 = {(0, 0, 0), (1, 0, 0), (0, 1, 0), (0, 0, 1)}
             \<and> calculate_molecular_radius z Voxel3D
                   (moment Voxel3D (XYZ_SampleStruct Voxel3D) (1, 0, 0) / total_mass Voxel3D,
                    moment Voxel3D (XYZ_SampleStruct Voxel3D) (0, 1, 0) / total_mass Voxel3D,
                    moment Voxel3D (XYZ_SampleStruct Voxel3D) (0, 0, 1) / total_mass Voxel3D)
                   (total_mass Voxel3D) (default_radius_multiplier (Param g))
                 = Inr (Average, Maximum)
             \<and> get_bbox_moment_xyz_sample z
                   (moment Voxel3D (XYZ_SampleStruct Voxel3D) (1, 0, 0) / total_mass Voxel3D,
                    moment Voxel3D (XYZ_SampleStruct Voxel3D) (0, 1, 0) / total_mass Voxel3D,
                    moment Voxel3D (XYZ_SampleStruct Voxel3D) (0, 0, 1) / total_mass Voxel3D)
                   Average (shape Voxel3D)
                 = Inr Sphere
             \<and> computeMoments Voxel3D MaxOrder Sphere = Inr (mass2, center2, SphereBBoxMoment)
             \<and> calculate_bbox_moment_2_zm z MaxOrder (GCache_complex g) (GCache_pqr_linear g)
                   (GCache_complex_index g) (CLMCache3D g) SphereBBoxMoment
                 = Inr (ZMoment_scaled, ZMoment_raw)
             \<and> d = nan_filter (directInvariant ZMoment_scaled))"
    by (rule impI) (rule OneTimeConversion_design_chain)
  show ?thesis
    by (intro conjI m t0 c p d f s OneTimeConversion_order1_tensor [OF assms(2)]
          OneTimeConversion_Inr_iff)
qed

theorem first_pass_mass_and_center_witness:
  "\<exists>T. computeMoments (uniform_grid 2 1 1 1) 1 (XYZ_SampleStruct (uniform_grid 2 1 1 1))
          = Inr (2, (1 / 2, 0, 0), T)
      \<and> (20::nat) \<noteq> 1
      \<and> total_mass (uniform_grid 2 1 1 1) = 2
      \<and> T (0, 0, 0) = Some 2 \<and> T (1, 0, 0) = Some 1 \<and> T (2, 0, 0) = None
      \<and> dom T = {(0, 0, 0), (1, 0, 0), (0, 1, 0), (0, 0, 1)}
      \<and> OneTimeConversion (replace_order1_tensor (\<lambda>pqr. None) constant_lib) empty_globals
           (uniform_grid 2 1 1 1) 20
          = OneTimeConversion constant_lib empty_globals (uniform_grid 2 1 1 1) 20
      \<and> OneTimeConversion (design_lib constant_lib) empty_globals (uniform_grid 2 1 1 1) 20
          = Inr (nan_filter (directInvariant (zero_moments 20)))"
proof -
  define G where "G = uniform_grid 2 1 1 1"
  define S where "S = XYZ_SampleStruct G"
  define T where
    "T = (\<lambda>(p, q, r). if p + q + r \<le> (1::nat) then Some (moment G S (p, q, r)) else None)"
  define L where "L = design_lib constant_lib"
  define S3 where "S3 = \<lparr>X_sample = arange 3, Y_sample = arange 3, Z_sample = arange 3\<rparr>"
  have u: "[0..<2] = [0, Suc 0]"
    by (simp add: upt_rec)
  have m0: "moment G S (0, 0, 0) = 2" and m1: "moment G S (1, 0, 0) = 1"
    and m2: "moment G S (0, 1, 0) = 0" and m3: "moment G S (0, 0, 1) = 0"
    by (simp_all add: moment_def G_def S_def uniform_grid_def XYZ_SampleStruct_def arange_def u)
  have run: "computeMoments G 1 S = Inr (2, (1 / 2, 0, 0), T)"
    using m0 m1 m2 m3 by (simp add: computeMoments_def T_def)
  have n: "(20::nat) \<noteq> 1"
    by simp
  have t: "T (1, 0, 0) = Some 1" "T (2, 0, 0) = None"
    using m1 by (simp_all add: T_def)
  have "total_mass G = 2"
    by (simp add: total_mass_def G_def uniform_grid_def u)
  then obtain mass2 center2 T2 where c4: "computeMoments G 20 S3 = Inr (mass2, center2, T2)"
    by (simp add: computeMoments_def moment_000)
  note th = first_pass_mass_and_center [OF run n, where T' = "\<lambda>pqr. None" and Voxel3D = G
      and g = empty_globals and e = DegenerateInputError]
  have c1: "calculate_bbox_moment L G 1 (XYZ_SampleStruct G) = Inr (2, (1 / 2, 0, 0), T)"
    using run by (simp add: L_def design_lib_def S_def)
  have c2: "calculate_molecular_radius L G (1 / 2, 0, 0) 2
              (default_radius_multiplier (Param empty_globals)) = Inr (1, 1)"
    and c3: "get_bbox_moment_xyz_sample L (1 / 2, 0, 0) 1 (shape G) = Inr S3"
    and c5: "calculate_bbox_moment_2_zm L 20 (GCache_complex empty_globals)
               (GCache_pqr_linear empty_globals) (GCache_complex_index empty_globals)
               (CLMCache3D empty_globals) T2 = Inr (zero_moments 20, zero_moments 20)"
    and c6: "get_3dzd_121_descriptor L (zero_moments 20) = Inr (directInvariant (zero_moments 20))"
    by (simp_all add: L_def design_lib_def constant_lib_def S3_def)
  have c4': "calculate_bbox_moment L G 20 S3 = Inr (mass2, center2, T2)"
    using c4 by (simp add: L_def design_lib_def)
  from th [where z = L and d = "nan_filter (directInvariant (zero_moments 20))"]
  have iff: "OneTimeConversion L empty_globals G 20
               = Inr (nan_filter (directInvariant (zero_moments 20))) \<longleftrightarrow>
        (\<exists>VolumeMass Center T1 Average Maximum Sphere mass2 center2 SphereBBoxMoment
                      ZMoment_scaled ZMoment_raw ZM_3DZD_invariant.
                     calculate_bbox_moment L G 1 (XYZ_SampleStruct G)
                       = Inr (VolumeMass, Center, T1)
                   \<and> calculate_molecular_radius L G Center VolumeMass
                         (default_radius_multiplier (Param empty_globals)) = Inr (Average, Maximum)
                   \<and> get_bbox_moment_xyz_sample L Center Average (shape G) = Inr Sphere
                   \<and> calculate_bbox_moment L G 20 Sphere
                       = Inr (mass2, center2, SphereBBoxMoment)
                   \<and> calculate_bbox_moment_2_zm L 20 (GCache_complex empty_globals) (GCache_pqr_linear empty_globals)
                         (GCache_complex_index empty_globals) (CLMCache3D empty_globals) SphereBBoxMoment
                       = Inr (ZMoment_scaled, ZMoment_raw)
                   \<and> get_3dzd_121_descriptor L ZMoment_scaled = Inr ZM_3DZD_invariant
                   \<and> nan_filter (directInvariant (zero_moments 20)) = nan_filter ZM_3DZD_invariant)"
    by (elim conjE)
  have pipe: "OneTimeConversion L empty_globals G 20
                = Inr (nan_filter (directInvariant (zero_moments 20)))"
    unfolding iff using c1 c2 c3 c4' c5 c6 by blast
  from th [where z = constant_lib and d = "[]"]
  have rep: "OneTimeConversion (replace_order1_tensor (\<lambda>pqr. None) constant_lib) empty_globals G 20
               = OneTimeConversion constant_lib empty_globals G 20"
    by (elim conjE)
  from th [where z = constant_lib and d = "[]"] have r1: "2 = total_mass G"
    by (elim conjE)
  from th [where z = constant_lib and d = "[]"] have r2: "T (0, 0, 0) = Some 2"
    by (elim conjE)
  from th [where z = constant_lib and d = "[]"]
  have r3: "dom T = {(0, 0, 0), (1, 0, 0), (0, 1, 0), (0, 0, 1)}"
    by (elim conjE)
  note rest = r1 r2 r3
  show ?thesis
    using run n rest t rep pipe unfolding G_def S_def L_def by (intro exI [of _ T]) simp
qed

section \<open>The direct invariant descriptor\<close>

lemma concat_rows_nth:
  "\<forall>xs \<in> set xss. length xs = k \<Longrightarrow> i < length xss \<Longrightarrow> j < k
     \<Longrightarrow> concat xss ! (i * k + j) = xss ! i ! j"
proof (induction xss arbitrary: i)
  case Nil
  then show ?case by simp
next
  case (Cons xs xss)
  show ?case
  proof (cases i)
    case 0
    with Cons.prems show ?thesis by (simp add: nth_append)
  next
    case (Suc i')
    with Cons.prems have "concat xss ! (i' * k + j) = xss ! i' ! j"
      by (intro Cons.IH) auto
    with Suc Cons.prems show ?thesis
      by (simp add: nth_append add.assoc)
  qed
qed

lemma concat_rows_length:
  "\<forall>xs \<in> set xss. length xs = k \<Longrightarrow> length (concat xss) = length xss * k"
  by (induction xss) simp_all

lemma directInvariant_length:
  "length (directInvariant Z) = (zorder Z + 1) * (zorder Z + 1)"
  unfolding directInvariant_def
  by (subst concat_rows_length [where k = "zorder Z + 1"]) auto

lemma directInvariant_nth:
  assumes "n \<le> zorder Z" and "l \<le> zorder Z"
  shows "directInvariant Z ! (n * (zorder Z + 1) + l)
           = (if valid_nl n l then Num (invariant_norm Z n l) else NaN)"
proof -
  let ?N = "zorder Z + 1"
  let ?row = "\<lambda>n. map (\<lambda>l. if valid_nl n l then Num (invariant_norm Z n l) else NaN) [0..<?N]"
  have "concat (map ?row [0..<?N]) ! (n * ?N + l) = map ?row [0..<?N] ! n ! l"
    using assms by (intro concat_rows_nth) auto
  also have "\<dots> = (if valid_nl n l then Num (invariant_norm Z n l) else NaN)"
    using assms by (simp add: nth_append less_Suc_eq_le del: upt_Suc)
  finally show ?thesis
    by (simp add: directInvariant_def)
qed

lemma invariant_norm_sum:
  "invariant_norm Z n l
     = sqrt (\<Sum>m \<in> {m \<in> {- int l..int l}. zval Z n l m \<noteq> None}. (cmod (the (zval Z n l m)))\<^sup>2)"
proof -
  have "(\<Sum>c\<leftarrow>List.map_filter (zval Z n l) [- int l..int l]. (cmod c)\<^sup>2)
          = (\<Sum>m\<leftarrow>filter (\<lambda>m. zval Z n l m \<noteq> None) [- int l..int l]. (cmod (the (zval Z n l m)))\<^sup>2)"
    by (simp add: List.map_filter_def comp_def)
  also have "\<dots> = (\<Sum>m \<in> set (filter (\<lambda>m. zval Z n l m \<noteq> None) [- int l..int l]).
                      (cmod (the (zval Z n l m)))\<^sup>2)"
    by (intro sum_list_distinct_conv_sum_set) simp
  also have "set (filter (\<lambda>m. zval Z n l m \<noteq> None) [- int l..int l])
               = {m \<in> {- int l..int l}. zval Z n l m \<noteq> None}"
    by auto
  finally show ?thesis
    by (simp add: invariant_norm_def)
qed

text \<open>
  C2: for every moment set and every \<open>(n, l)\<close> pair that satisfies the triangular
  invariant (with \<open>n\<close> up to the order), the descriptor entry of the pair, at row \<open>n\<close>
  and column \<open>l\<close> of the descriptor, is the square root of the sum of the squared
  magnitudes of the moments \<open>(n, l, m)\<close> over those of the \<open>2 l + 1\<close> values of \<open>m\<close> whose
  entry is populated.
\<close>

theorem descriptor_entry_is_norm:
  assumes "valid_nl n l" and "n \<le> zorder Z"
  shows "n * (zorder Z + 1) + l < length (directInvariant Z)
       \<and> directInvariant Z ! (n * (zorder Z + 1) + l)
           = Num (sqrt (\<Sum>m \<in> {m \<in> {- int l..int l}. zval Z n l m \<noteq> None}.
                          (cmod (the (zval Z n l m)))\<^sup>2))
       \<and> card {- int l..int l} = 2 * l + 1"
proof -
  from assms have l: "l \<le> zorder Z"
    by (simp add: valid_nl_def)
  have "n * (zorder Z + 1) + l < n * (zorder Z + 1) + (zorder Z + 1)"
    using l by simp
  also have "\<dots> = (n + 1) * (zorder Z + 1)"
    by simp
  also have "\<dots> \<le> (zorder Z + 1) * (zorder Z + 1)"
    using assms(2) by (intro mult_right_mono) simp_all
  finally have b: "n * (zorder Z + 1) + l < length (directInvariant Z)"
    by (simp add: directInvariant_length)
  have e: "directInvariant Z ! (n * (zorder Z + 1) + l)
           = Num (sqrt (\<Sum>m \<in> {m \<in> {- int l..int l}. zval Z n l m \<noteq> None}.
                          (cmod (the (zval Z n l m)))\<^sup>2))"
    unfolding directInvariant_nth [OF assms(2) l] invariant_norm_sum [symmetric]
    using assms(1) by simp
  have c: "card {- int l..int l} = 2 * l + 1"
    by simp
  show ?thesis
    by (intro conjI b e c)
qed

theorem descriptor_entry_is_norm_witness:
  "valid_nl 1 1 \<and> 1 \<le> zorder axial_moments
   \<and> directInvariant axial_moments ! 4 = Num 5
   \<and> card {- int 1..int 1} = 3"
proof -
  have v: "valid_nl 1 1"
    by (simp add: valid_nl_def)
  have o: "1 \<le> zorder axial_moments"
    by (simp add: axial_moments_def)
  have s: "{m \<in> {- int 1..int 1}. zval axial_moments 1 1 m \<noteq> None} = {0}"
    by (auto simp: axial_moments_def)
  have "sqrt ((cmod (Complex 3 4))\<^sup>2) = 5"
    by (simp add: cmod_def real_sqrt_unique)
  then have n: "sqrt (\<Sum>m \<in> {m \<in> {- int 1..int 1}. zval axial_moments 1 1 m \<noteq> None}.
                   (cmod (the (zval axial_moments 1 1 m)))\<^sup>2) = 5"
    unfolding s by (simp add: axial_moments_def)
  have i: "1 * (zorder axial_moments + 1) + 1 = 4"
    by (simp add: axial_moments_def)
  show ?thesis
    using descriptor_entry_is_norm [OF v o] v o unfolding n i by simp
qed

subsection \<open>The number of entries\<close>

lemma directInvariant_product:
  "directInvariant Z
     = map (\<lambda>(n, l). if valid_nl n l then Num (invariant_norm Z n l) else NaN)
         (List.product [0..<zorder Z + 1] [0..<zorder Z + 1])"
  by (simp add: directInvariant_def product_concat_map map_concat comp_def del: upt_Suc)

lemma nan_filter_directInvariant:
  "nan_filter (directInvariant Z)
     = map (\<lambda>(n, l). Num (invariant_norm Z n l)) (valid_pairs (zorder Z))"
proof -
  let ?f = "\<lambda>(n, l). if valid_nl n l then Num (invariant_norm Z n l) else NaN"
  have "(\<lambda>c. \<not> isnan c) \<circ> ?f = (\<lambda>(n, l). valid_nl n l)"
    by (auto simp: fun_eq_iff)
  then have "nan_filter (directInvariant Z) = map ?f (valid_pairs (zorder Z))"
    by (simp add: nan_filter_def directInvariant_product filter_map valid_pairs_def del: upt_Suc)
  also have "\<dots> = map (\<lambda>(n, l). Num (invariant_norm Z n l)) (valid_pairs (zorder Z))"
    by (rule map_cong) (auto simp: valid_pairs_def)
  finally show ?thesis .
qed

lemma length_filter_product:
  "length (filter P (List.product xs ys)) = (\<Sum>x\<leftarrow>xs. length (filter (\<lambda>y. P (x, y)) ys))"
  by (induction xs) (simp_all add: filter_map comp_def)

lemma valid_row_set:
  fixes n :: nat
  shows "{l. l \<le> n \<and> even (n - l)} = (\<lambda>k. n - 2 * k) ` {..n div 2}"
proof (intro set_eqI iffI)
  fix l
  assume a: "l \<in> {l. l \<le> n \<and> even (n - l)}"
  from a have l: "l \<le> n"
    by blast
  from a have e: "even (n - l)"
    by blast
  from e obtain k where k: "n - l = 2 * k"
    by (rule evenE)
  with l have "l = n - 2 * k" and "k \<le> n div 2"
    by arith+
  then show "l \<in> (\<lambda>k. n - 2 * k) ` {..n div 2}"
    by blast
next
  fix l
  assume "l \<in> (\<lambda>k. n - 2 * k) ` {..n div 2}"
  then obtain k where k: "k \<le> n div 2" and l: "l = n - 2 * k"
    by auto
  from k have "2 * k \<le> n"
    by arith
  then have "n - l = 2 * k"
    using l by arith
  then have "even (n - l)"
    by (simp only: even_mult_iff even_two_times_div_two) simp
  moreover have "l \<le> n"
    using l by arith
  ultimately show "l \<in> {l. l \<le> n \<and> even (n - l)}"
    by blast
qed

lemma valid_row_count:
  assumes "n \<le> N"
  shows "length (filter (valid_nl n) [0..<N + 1]) = n div 2 + 1"
proof -
  have "length (filter (valid_nl n) [0..<N + 1]) = card (set (filter (valid_nl n) [0..<N + 1]))"
    by (intro distinct_card [symmetric] distinct_filter distinct_upt)
  also have "set (filter (valid_nl n) [0..<N + 1]) = {l. l < N + 1 \<and> valid_nl n l}"
    unfolding set_filter set_upt by auto
  finally have "length (filter (valid_nl n) [0..<N + 1]) = card {l. l < N + 1 \<and> valid_nl n l}" .
  also have "{l. l < N + 1 \<and> valid_nl n l} = {l. l \<le> n \<and> even (n - l)}"
    using assms by (auto simp: valid_nl_def)
  also have "card \<dots> = card {..n div 2}"
    unfolding valid_row_set
  proof (rule card_image)
    show "inj_on (\<lambda>k. n - 2 * k) {..n div 2}"
    proof (rule inj_onI)
      fix x y :: nat
      assume "x \<in> {..n div 2}" and "y \<in> {..n div 2}" and "n - 2 * x = n - 2 * y"
      then show "x = y"
        by simp
    qed
  qed
  finally show ?thesis
    by simp
qed

lemma sum_half: "(\<Sum>n\<leftarrow>[0..<N + 1]. n div 2 + 1) = (N div 2 + 1) * ((N + 1) div 2 + 1)"
proof (induction N)
  case 0
  show ?case by simp
next
  case (Suc N)
  have "(\<Sum>n\<leftarrow>[0..<Suc N + 1]. n div 2 + 1)
          = (\<Sum>n\<leftarrow>[0..<N + 1]. n div 2 + 1) + (Suc N div 2 + 1)"
    by simp
  also have "\<dots> = (N div 2 + 1) * ((N + 1) div 2 + 1) + (Suc N div 2 + 1)"
    by (simp only: Suc.IH)
  also have "\<dots> = (Suc N div 2 + 1) * ((Suc N + 1) div 2 + 1)"
    by (simp add: algebra_simps)
  finally show ?case .
qed

lemma valid_pairs_length: "length (valid_pairs N) = (N div 2 + 1) * ((N + 1) div 2 + 1)"
proof -
  have "length (valid_pairs N) = (\<Sum>n\<leftarrow>[0..<N + 1]. length (filter (valid_nl n) [0..<N + 1]))"
    unfolding valid_pairs_def length_filter_product by simp
  also have "\<dots> = (\<Sum>n\<leftarrow>[0..<N + 1]. n div 2 + 1)"
    by (intro arg_cong [where f = sum_list] map_cong refl valid_row_count) auto
  finally show ?thesis
    by (simp only: sum_half)
qed

lemma descriptor_length:
  "length (nan_filter (directInvariant Z))
     = (zorder Z div 2 + 1) * ((zorder Z + 1) div 2 + 1)"
  by (simp add: nan_filter_directInvariant valid_pairs_length)

lemma OneTimeConversion_design_Inr:
  assumes "OneTimeConversion (design_lib z) g Voxel3D MaxOrder = Inr d"
  shows "\<exists>T s r. calculate_bbox_moment_2_zm z MaxOrder (GCache_complex g) (GCache_pqr_linear g)
                   (GCache_complex_index g) (CLMCache3D g) T = Inr (s, r)
               \<and> d = nan_filter (directInvariant s)"
  using assms
  by (auto simp: OneTimeConversion_def design_lib_def split: sum.splits prod.splits)

text \<open>
  C1: at \<^verbatim>\<open>MaxOrder = 20\<close> the descriptor vector that the pipeline returns (the Zernike
  transform's scaled moments, of order 20, passed through the descriptor and the NaN
  filter) has length 121; so has the filtered descriptor of any moment set of order 20.
\<close>

theorem descriptor_length_121:
  assumes "OneTimeConversion (design_lib z) g Voxel3D 20 = Inr d"
    and "\<forall>c1 c2 c3 c4 T s r.
           calculate_bbox_moment_2_zm z 20 c1 c2 c3 c4 T = Inr (s, r) \<longrightarrow> zorder s = 20"
  shows "length d = 121
       \<and> (\<forall>Z. zorder Z = 20 \<longrightarrow> length (nan_filter (directInvariant Z)) = 121)"
proof -
  have a: "length (nan_filter (directInvariant Z)) = 121" if "zorder Z = 20" for Z
    by (simp add: descriptor_length that)
  from OneTimeConversion_design_Inr [OF assms(1)] obtain T s r
    where t: "calculate_bbox_moment_2_zm z 20 (GCache_complex g) (GCache_pqr_linear g)
                (GCache_complex_index g) (CLMCache3D g) T = Inr (s, r)"
      and d: "d = nan_filter (directInvariant s)"
    by blast
  from assms(2) t have "zorder s = 20"
    by blast
  then have "length d = 121"
    unfolding d by (rule a)
  with a show ?thesis
    by blast
qed

theorem descriptor_length_121_witness:
  "\<exists>d. OneTimeConversion (design_lib constant_lib) empty_globals (uniform_grid 2 2 2 1) 20 = Inr d
      \<and> length d = 121"
proof -
  have m: "total_mass (uniform_grid 2 2 2 1) = 8"
    by (simp add: total_mass_def uniform_grid_def upt_rec)
  have run: "OneTimeConversion (design_lib constant_lib) empty_globals (uniform_grid 2 2 2 1) 20
               = Inr (nan_filter (directInvariant (zero_moments 20)))"
    by (simp add: OneTimeConversion_def design_lib_def constant_lib_def computeMoments_def
          moment_000 m)
  have t: "\<forall>c1 c2 c3 c4 T s r.
             calculate_bbox_moment_2_zm constant_lib 20 c1 c2 c3 c4 T = Inr (s, r)
               \<longrightarrow> zorder s = 20"
    by (auto simp: constant_lib_def zero_moments_def)
  show ?thesis
    using descriptor_length_121 [OF run t] run by blast
qed

section \<open>Float64 rounding\<close>

lemma pow2_pos: "0 < pow2 e"
  by (simp add: pow2_def)

lemma pow2_nat: "0 \<le> e \<Longrightarrow> pow2 e = 2 ^ nat e"
  by (simp add: pow2_def)

lemma pow2_neg: "0 \<le> e \<Longrightarrow> pow2 (- e) = 1 / 2 ^ nat e"
  by (cases "e = 0") (simp_all add: pow2_def)

lemma pow2_inverse: "pow2 (- e) * pow2 e = 1"
  by (cases "0 \<le> e") (auto simp: pow2_def)

lemma pow2_Suc: "pow2 (e + 1) = 2 * pow2 e"
proof (cases "0 \<le> e")
  case True
  then show ?thesis
    by (simp add: pow2_def nat_add_distrib)
next
  case False
  then have "nat (- e) = Suc (nat (- (e + 1)))"
    by simp
  then have "(2::real) ^ nat (- e) = 2 * 2 ^ nat (- (e + 1))"
    by simp
  with False show ?thesis
    by (cases "e = - 1") (simp_all add: pow2_def)
qed

lemma ilog2_bounds:
  assumes "0 < x"
  shows "pow2 (ilog2 x) \<le> x \<and> x < pow2 (ilog2 x + 1)"
proof (cases "1 \<le> x")
  case True
  define n where "n = \<lfloor>x\<rfloor>"
  have n: "0 < n"
    using True by (simp add: n_def)
  then have b: "1 \<le> bitlen n"
    by (simp add: bitlen_alt_def)
  from bitlen_bounds [OF n] have lo: "2 ^ nat (bitlen n - 1) \<le> n" and hi: "n < 2 ^ nat (bitlen n)"
    by simp_all
  have "real_of_int (2 ^ nat (bitlen n - 1)) \<le> real_of_int n"
    using lo by (simp only: of_int_le_iff)
  also have "\<dots> \<le> x"
    by (simp add: n_def)
  finally have 1: "pow2 (bitlen n - 1) \<le> x"
    using b by (simp add: pow2_nat)
  have "n + 1 \<le> 2 ^ nat (bitlen n)"
    using hi by simp
  then have "real_of_int (n + 1) \<le> real_of_int (2 ^ nat (bitlen n))"
    by (simp only: of_int_le_iff)
  moreover have "x < real_of_int (n + 1)"
    by (simp add: n_def)
  ultimately have 2: "x < pow2 (bitlen n)"
    using b by (simp add: pow2_nat)
  from 1 2 True show ?thesis
    by (simp add: ilog2_def n_def)
next
  case False
  define c where "c = \<lceil>1 / x\<rceil>"
  have y: "1 < 1 / x"
    using False assms by simp
  then have c2: "2 \<le> c"
    unfolding c_def by linarith
  then have n: "0 < c - 1"
    by simp
  then have b: "1 \<le> bitlen (c - 1)"
    by (simp add: bitlen_alt_def)
  from bitlen_bounds [OF n] have lo: "2 ^ nat (bitlen (c - 1) - 1) \<le> c - 1"
    and hi: "c - 1 < 2 ^ nat (bitlen (c - 1))"
    by simp_all
  have "real_of_int (2 ^ nat (bitlen (c - 1) - 1)) \<le> real_of_int (c - 1)"
    using lo by (simp only: of_int_le_iff)
  also have "\<dots> < 1 / x"
    unfolding c_def by linarith
  finally have "2 ^ nat (bitlen (c - 1) - 1) < 1 / x"
    by simp
  then have "x < 1 / 2 ^ nat (bitlen (c - 1) - 1)"
    using assms by (simp add: field_simps)
  then have 2: "x < pow2 (- (bitlen (c - 1) - 1))"
    using b pow2_neg [of "bitlen (c - 1) - 1"] by simp
  have "c \<le> 2 ^ nat (bitlen (c - 1))"
    using hi by simp
  then have "real_of_int c \<le> real_of_int (2 ^ nat (bitlen (c - 1)))"
    by (simp only: of_int_le_iff)
  then have "real_of_int c \<le> 2 ^ nat (bitlen (c - 1))"
    by simp
  moreover have "1 / x \<le> real_of_int c"
    unfolding c_def by linarith
  ultimately have "1 / x \<le> 2 ^ nat (bitlen (c - 1))"
    by (rule order_trans [rotated])
  then have "1 / 2 ^ nat (bitlen (c - 1)) \<le> x"
    using assms by (simp add: field_simps)
  then have 1: "pow2 (- bitlen (c - 1)) \<le> x"
    using b by (simp add: pow2_neg)
  have "- bitlen (c - 1) + 1 = - (bitlen (c - 1) - 1)"
    by simp
  with 1 2 False show ?thesis
    by (simp add: ilog2_def c_def)
qed

lemma pow2_powr: "pow2 e = 2 powr (real_of_int e)"
proof (cases "0 \<le> e")
  case True
  then have "real_of_int e = real (nat e)"
    by simp
  then have "2 powr (real_of_int e) = 2 ^ nat e"
    by (simp only: powr_realpow [of 2, OF zero_less_numeral])
  with True show ?thesis
    by (simp add: pow2_def)
next
  case False
  then have "real_of_int e = - real (nat (- e))"
    by simp
  then have "2 powr (real_of_int e) = 1 / 2 powr real (nat (- e))"
    by (simp only: powr_minus_divide)
  also have "\<dots> = 1 / 2 ^ nat (- e)"
    by (simp only: powr_realpow [of 2, OF zero_less_numeral])
  finally show ?thesis
    using False by (simp add: pow2_def)
qed

lemma pow2_add: "pow2 (a + b) = pow2 a * pow2 b"
  by (simp add: pow2_powr powr_add)

lemma round_half_even_error: "\<bar>real_of_int (round_half_even q) - q\<bar> \<le> 1 / 2"
proof -
  have "0 \<le> q - real_of_int \<lfloor>q\<rfloor>" and "q - real_of_int \<lfloor>q\<rfloor> < 1"
    by linarith+
  then show ?thesis
    by (auto simp: round_half_even_def Let_def)
qed

lemma round_half_even_range:
  assumes "2 ^ 52 \<le> q" and "q < 2 ^ 53"
  shows "2 ^ 52 \<le> round_half_even q \<and> round_half_even q \<le> 2 ^ 53"
proof -
  have "(2::int) ^ 52 \<le> \<lfloor>q\<rfloor>"
    using assms(1) by (simp add: le_floor_iff)
  moreover have "\<lfloor>q\<rfloor> < (2::int) ^ 53"
    using assms(2) by (simp add: floor_less_iff)
  ultimately show ?thesis
    by (auto simp: round_half_even_def Let_def)
qed

text \<open>
  The rounding is to a nearest number with a 53-bit significand: the result is an integer
  between \<open>2^52\<close> and \<open>2^53\<close> times the unit in the last place of the argument's binade,
  and it is at most half a unit away from the argument.
\<close>

lemma rnd64_nearest:
  assumes "x \<noteq> 0"
  shows "\<exists>m. rnd64 x = sgn x * (real_of_int m * pow2 (ilog2 \<bar>x\<bar> - 52))
             \<and> 2 ^ 52 \<le> m \<and> m \<le> 2 ^ 53"
    and "\<bar>rnd64 x - x\<bar> \<le> pow2 (ilog2 \<bar>x\<bar> - 52) / 2"
proof -
  define e where "e = ilog2 \<bar>x\<bar> - 52"
  define q where "q = \<bar>x\<bar> * pow2 (- e)"
  define m where "m = round_half_even q"
  have r: "rnd64 x = sgn x * (real_of_int m * pow2 e)"
    using assms by (simp add: rnd64_def Let_def e_def q_def m_def)
  from assms have "0 < \<bar>x\<bar>"
    by simp
  from ilog2_bounds [OF this]
  have lo: "pow2 (e + 52) \<le> \<bar>x\<bar>" and hi: "\<bar>x\<bar> < pow2 (e + 52 + 1)"
    by (simp_all add: e_def)
  have p52: "pow2 (e + 52) * pow2 (- e) = 2 ^ 52"
    using pow2_add [of "e + 52" "- e"] by (simp add: pow2_def)
  have p53: "pow2 (e + 52 + 1) * pow2 (- e) = 2 ^ 53"
    using pow2_add [of "e + 52 + 1" "- e"] by (simp add: pow2_def)
  have "pow2 (e + 52) * pow2 (- e) \<le> q"
    unfolding q_def using lo pow2_pos [of "- e"] by (simp only: mult_le_cancel_right_pos)
  then have q1: "2 ^ 52 \<le> q"
    by (simp only: p52)
  have "q < pow2 (e + 52 + 1) * pow2 (- e)"
    unfolding q_def using hi pow2_pos [of "- e"] by (simp only: mult_less_cancel_right_pos)
  then have q2: "q < 2 ^ 53"
    by (simp only: p53)
  from round_half_even_range [OF q1 q2] r
  show "\<exists>m. rnd64 x = sgn x * (real_of_int m * pow2 (ilog2 \<bar>x\<bar> - 52))
             \<and> 2 ^ 52 \<le> m \<and> m \<le> 2 ^ 53"
    unfolding m_def [symmetric] e_def [symmetric] by blast
  have x: "x = sgn x * (q * pow2 e)"
    using pow2_inverse [of e] by (simp add: q_def mult.assoc sgn_mult_abs)
  have "rnd64 x - x = sgn x * ((real_of_int m - q) * pow2 e)"
    by (subst (2) x) (simp add: r algebra_simps)
  then have "\<bar>rnd64 x - x\<bar> = \<bar>real_of_int m - q\<bar> * pow2 e"
    using assms pow2_pos [of e] by (simp add: abs_mult abs_sgn_eq)
  also have "\<dots> \<le> (1 / 2) * pow2 e"
    using round_half_even_error [of q] pow2_pos [of e]
    unfolding m_def by (intro mult_right_mono) simp_all
  finally show "\<bar>rnd64 x - x\<bar> \<le> pow2 (ilog2 \<bar>x\<bar> - 52) / 2"
    by (simp add: e_def)
qed

section \<open>Symmetry of the comparator\<close>

lemma rnd64_minus: "rnd64 (- x) = - rnd64 x"
  by (simp add: rnd64_def Let_def)

lemma map2_flip: "map2 f x y = map2 (\<lambda>b a. f a b) y x"
proof -
  have "zip x y = map (\<lambda>(b, a). (a, b)) (zip y x)"
    by (rule zip_commute)
  then show ?thesis
    by (simp add: case_prod_unfold comp_def)
qed

lemma broadcast_flip: "broadcast f x y = broadcast (\<lambda>b a. f a b) y x"
  unfolding broadcast_def using map2_flip [of f x y] by auto

lemma abs_diff_flip:
  fixes rnd :: "real \<Rightarrow> real"
  assumes "\<And>x. rnd (- x) = - rnd x"
  shows "(\<lambda>b a. \<bar>rnd (a - b)\<bar>) = (\<lambda>x y. \<bar>rnd (x - y)\<bar>)"
proof (intro ext)
  fix b a :: real
  have "rnd (a - b) = - rnd (b - a)"
    using assms [of "b - a"] by simp
  then show "\<bar>rnd (a - b)\<bar> = \<bar>rnd (b - a)\<bar>"
    by simp
qed

lemma fancy_index_error: "fancy_index a idx = Inl e \<Longrightarrow> e = IndexError"
  by (auto simp: fancy_index_def split: if_splits)

lemma ZMScore_sym:
  assumes "\<And>x. rnd (- x) = - rnd x"
  shows "ZMScore rnd P A B = ZMScore rnd P B A"
proof (cases "fancy_index A (ZMIndex P)")
  case a: (Inl ea)
  then have ea: "ea = IndexError"
    by (rule fancy_index_error)
  show ?thesis
  proof (cases "fancy_index B (ZMIndex P)")
    case (Inl eb)
    then have "eb = IndexError"
      by (rule fancy_index_error)
    with a ea Inl show ?thesis
      by (simp add: ZMScore_def)
  next
    case (Inr b)
    with a ea show ?thesis
      by (simp add: ZMScore_def)
  qed
next
  case a: (Inr a)
  show ?thesis
  proof (cases "fancy_index B (ZMIndex P)")
    case (Inl eb)
    then have "eb = IndexError"
      by (rule fancy_index_error)
    with a Inl show ?thesis
      by (simp add: ZMScore_def)
  next
    case (Inr b)
    have "broadcast (\<lambda>x y. \<bar>rnd (x - y)\<bar>) a b = broadcast (\<lambda>x y. \<bar>rnd (x - y)\<bar>) b a"
      by (subst broadcast_flip) (simp only: abs_diff_flip [of rnd, OF assms])
    with a Inr show ?thesis
      by (simp add: ZMScore_def)
  qed
qed

lemma broadcast_Inl: "broadcast f x y = Inl e \<longleftrightarrow>
    e = ValueError \<and> length x \<noteq> length y \<and> length x \<noteq> 1 \<and> length y \<noteq> 1"
  by (auto simp: broadcast_def)

lemma broadcast_Inr_length:
  "broadcast f x y = Inr r \<Longrightarrow>
     length r = (if length x = length y then length x else if length x = 1 then length y else length x)"
  by (auto simp: broadcast_def split: if_splits)

lemma GeoScore_Inl:
  "GeoScore rnd P x y = Inl e \<longleftrightarrow>
     e = ValueError \<and>
     (length x \<noteq> length y \<and> length x \<noteq> 1 \<and> length y \<noteq> 1
      \<or> (let n = (if length x = length y then length x else if length x = 1 then length y else length x)
         in length (GeoWeight P) \<noteq> n \<and> length (GeoWeight P) \<noteq> 1 \<and> n \<noteq> 1))"
proof (cases "broadcast (\<lambda>x y. rnd (2 * \<bar>rnd (x - y)\<bar>)) x y")
  case (Inl e1)
  then have s: "e1 = ValueError" "length x \<noteq> length y" "length x \<noteq> 1" "length y \<noteq> 1"
    by (simp_all add: broadcast_Inl)
  with Inl show ?thesis
    by (auto simp: GeoScore_def)
next
  case num: (Inr num)
  define n where
    "n = (if length x = length y then length x else if length x = 1 then length y else length x)"
  have ln: "length num = n"
    unfolding n_def by (rule broadcast_Inr_length [OF num])
  have ok: "\<not> (length x \<noteq> length y \<and> length x \<noteq> 1 \<and> length y \<noteq> 1)"
    using num broadcast_Inl [of "\<lambda>x y. rnd (2 * \<bar>rnd (x - y)\<bar>)" x y ValueError] by auto
  then obtain den where den: "broadcast (\<lambda>x y. rnd (rnd (1 + \<bar>x\<bar>) + \<bar>y\<bar>)) x y = Inr den"
    using broadcast_Inl [of "\<lambda>x y. rnd (rnd (1 + \<bar>x\<bar>) + \<bar>y\<bar>)" x y]
    by (cases "broadcast (\<lambda>x y. rnd (rnd (1 + \<bar>x\<bar>) + \<bar>y\<bar>)) x y") auto
  have ld: "length den = n"
    unfolding n_def by (rule broadcast_Inr_length [OF den])
  obtain q where q: "broadcast (\<lambda>c d. rnd (c / d)) num den = Inr q" and lq: "length q = n"
    using ln ld by (simp add: broadcast_def)
  have run: "GeoScore rnd P x y
               = (case broadcast (\<lambda>w c. rnd (w * c)) (GeoWeight P) q of
                    Inl e \<Rightarrow> Inl e | Inr t \<Rightarrow> Inr (fsum rnd t))"
    by (simp add: GeoScore_def num den q)
  have rhs: "(e = ValueError \<and>
     (length x \<noteq> length y \<and> length x \<noteq> 1 \<and> length y \<noteq> 1
      \<or> (let n = (if length x = length y then length x else if length x = 1 then length y else length x)
         in length (GeoWeight P) \<noteq> n \<and> length (GeoWeight P) \<noteq> 1 \<and> n \<noteq> 1)))
     \<longleftrightarrow> (e = ValueError \<and> length (GeoWeight P) \<noteq> n \<and> length (GeoWeight P) \<noteq> 1 \<and> n \<noteq> 1)"
    using ok unfolding n_def Let_def by blast
  show ?thesis
  proof (cases "broadcast (\<lambda>w c. rnd (w * c)) (GeoWeight P) q")
    case (Inl e4)
    then have "e4 = ValueError \<and> length (GeoWeight P) \<noteq> n \<and> length (GeoWeight P) \<noteq> 1 \<and> n \<noteq> 1"
      by (simp add: broadcast_Inl lq)
    with Inl show ?thesis
      unfolding rhs run by auto
  next
    case (Inr t)
    have "\<not> (length (GeoWeight P) \<noteq> n \<and> length (GeoWeight P) \<noteq> 1 \<and> n \<noteq> 1)"
      using Inr broadcast_Inl [of "\<lambda>w c. rnd (w * c)" "GeoWeight P" q ValueError] lq by auto
    with Inr show ?thesis
      unfolding rhs run by auto
  qed
qed

lemma GeoScore_error_sym: "GeoScore rnd P x y = Inl e \<longleftrightarrow> GeoScore rnd' P y x = Inl e"
  unfolding GeoScore_Inl by (auto simp: Let_def)

lemma GeoScore_sym:
  fixes rnd :: "real \<Rightarrow> real"
  assumes odd: "\<And>x. rnd (- x) = - rnd x"
    and den: "\<And>x y. rnd (rnd (1 + \<bar>x\<bar>) + \<bar>y\<bar>) = rnd (rnd (1 + \<bar>y\<bar>) + \<bar>x\<bar>)"
  shows "GeoScore rnd P x y = GeoScore rnd P y x"
proof -
  have "(\<lambda>b a. rnd (2 * \<bar>rnd (a - b)\<bar>)) = (\<lambda>x y. rnd (2 * \<bar>rnd (x - y)\<bar>))"
    using abs_diff_flip [of rnd, OF odd] by (simp add: fun_eq_iff)
  then have n: "broadcast (\<lambda>x y. rnd (2 * \<bar>rnd (x - y)\<bar>)) x y
                  = broadcast (\<lambda>x y. rnd (2 * \<bar>rnd (x - y)\<bar>)) y x"
    by (subst broadcast_flip) simp
  have "(\<lambda>b a. rnd (rnd (1 + \<bar>a\<bar>) + \<bar>b\<bar>)) = (\<lambda>x y. rnd (rnd (1 + \<bar>x\<bar>) + \<bar>y\<bar>))"
    using den by (simp add: fun_eq_iff)
  then have d: "broadcast (\<lambda>x y. rnd (rnd (1 + \<bar>x\<bar>) + \<bar>y\<bar>)) x y
                  = broadcast (\<lambda>x y. rnd (rnd (1 + \<bar>x\<bar>) + \<bar>y\<bar>)) y x"
    by (subst broadcast_flip) simp
  show ?thesis
    unfolding GeoScore_def n d ..
qed

lemma GeoScore_exact_sym: "GeoScore (\<lambda>x. x) P x y = GeoScore (\<lambda>x. x) P y x"
  by (rule GeoScore_sym) simp_all

lemma score_exact_sym:
  "score (\<lambda>x. x) P A GA B GB = score (\<lambda>x. x) P B GB A GA"
  unfolding score_def
  by (simp only: GeoScore_exact_sym [of P GA GB] ZMScore_sym [of "\<lambda>x. x" P A B, simplified])

lemma score_zm_sym:
  "map_sum id snd (score rnd64 P A GA B GB) = map_sum id snd (score rnd64 P B GB A GA)"
proof -
  have z: "ZMScore rnd64 P A B = ZMScore rnd64 P B A"
    by (rule ZMScore_sym) (rule rnd64_minus)
  show ?thesis
  proof (cases "ZMScore rnd64 P B A")
    case (Inl e)
    then show ?thesis
      by (simp add: score_def z)
  next
    case zm: (Inr zm)
    show ?thesis
    proof (cases "GeoScore rnd64 P GA GB")
      case (Inl e)
      then have "GeoScore rnd64 P GB GA = Inl e"
        by (simp add: GeoScore_error_sym [of rnd64 P GA GB e rnd64])
      with Inl zm show ?thesis
        by (simp add: score_def z)
    next
      case (Inr geo)
      then obtain geo' where "GeoScore rnd64 P GB GA = Inr geo'"
        using GeoScore_error_sym [of rnd64 P GB GA _ rnd64]
        by (cases "GeoScore rnd64 P GB GA") auto
      with Inr zm show ?thesis
        by (simp add: score_def z)
    qed
  qed
qed

text \<open>
  C7, amended: the zmScore component of the comparator is symmetric in the two structures
  exactly, in float64 arithmetic (the raw score and the rescaled component, errors
  included), and the whole score is symmetric in exact arithmetic.  The float64 geoScore is
  left out: its denominator \<open>1 + |a| + |b|\<close> is summed from the left, and float64
  addition is not associative.
\<close>

theorem score_symmetry:
  "ZMScore rnd64 P A B = ZMScore rnd64 P B A
   \<and> map_sum id snd (score rnd64 P A GA B GB) = map_sum id snd (score rnd64 P B GB A GA)
   \<and> score (\<lambda>x. x) P A GA B GB = score (\<lambda>x. x) P B GB A GA"
  by (intro conjI ZMScore_sym rnd64_minus score_zm_sym score_exact_sym)

theorem score_symmetry_witness:
  "ZMScore rnd64 \<lparr>ZMIndex = [0], ZMWeight = [1], GeoWeight = [1, 1]\<rparr> [1] [2]
     = ZMScore rnd64 \<lparr>ZMIndex = [0], ZMWeight = [1], GeoWeight = [1, 1]\<rparr> [2] [1]
   \<and> map_sum id snd (score rnd64 \<lparr>ZMIndex = [0], ZMWeight = [1], GeoWeight = [1, 1]\<rparr>
                        [1] [rnd64 (51 / 10), 1] [2] [rnd64 (73 / 10), 1])
     = map_sum id snd (score rnd64 \<lparr>ZMIndex = [0], ZMWeight = [1], GeoWeight = [1, 1]\<rparr>
                        [2] [rnd64 (73 / 10), 1] [1] [rnd64 (51 / 10), 1])
   \<and> score (\<lambda>x. x) \<lparr>ZMIndex = [0], ZMWeight = [1], GeoWeight = [1, 1]\<rparr>
       [1] [rnd64 (51 / 10), 1] [2] [rnd64 (73 / 10), 1]
     = score (\<lambda>x. x) \<lparr>ZMIndex = [0], ZMWeight = [1], GeoWeight = [1, 1]\<rparr>
       [2] [rnd64 (73 / 10), 1] [1] [rnd64 (51 / 10), 1]"
  by (rule score_symmetry)

subsection \<open>A pair of structures with different scores\<close>

text \<open>
  The score of two structures whose first geometric components are the float64 numbers
  written \<^verbatim>\<open>5.1\<close> and \<^verbatim>\<open>7.3\<close>, evaluated operation by operation, in both orders.
\<close>

lemmas rnd64_eval = rnd64_def ilog2_def pow2_def round_half_even_def compute_bitlen

lemma score_two:
  "score rnd \<lparr>ZMIndex = [0], ZMWeight = [w], GeoWeight = [w1, w2]\<rparr> [a] [x1, x2] [b] [y1, y2]
     = Inr (rnd (rnd (rnd (rnd (66 / 10)
                - rnd (rnd (0 + rnd (w1 * rnd (rnd (2 * \<bar>rnd (x1 - y1)\<bar>) / rnd (rnd (1 + \<bar>x1\<bar>) + \<bar>y1\<bar>))))
                         + rnd (w2 * rnd (rnd (2 * \<bar>rnd (x2 - y2)\<bar>) / rnd (rnd (1 + \<bar>x2\<bar>) + \<bar>y2\<bar>)))))
                / rnd (66 / 10)) * 100),
            rnd (rnd (rnd (rnd 9 - rnd (0 + rnd (\<bar>rnd (a - b)\<bar> * w))) / rnd 9) * 100))"
  by (simp add: score_def ZMScore_def GeoScore_def broadcast_def fancy_index_def fsum_def
        rescale_def)

lemma score_51_73:
  "score rnd64 \<lparr>ZMIndex = [0], ZMWeight = [1], GeoWeight = [1, 1]\<rparr>
     [1] [rnd64 (51 / 10), 1] [2] [rnd64 (73 / 10), 1]
   = Inr (6686781163151155 / 70368744177664, 3127499741229511 / 35184372088832)"
proof -
  have a1: "rnd64 (51 / 10) = 2871044762448691 / 562949953421312"
    by (simp add: rnd64_eval)
  have a2: "rnd64 (73 / 10) = 8219069319951155 / 1125899906842624"
    by (simp add: rnd64_eval)
  have a3: "rnd64 (1 - 2) = - 1"
    by (simp add: rnd64_eval)
  have a4: "rnd64 (\<bar>- 1\<bar> * 1) = 1"
    by (simp add: rnd64_eval)
  have a5: "rnd64 (0 + 1) = 1"
    by (simp add: rnd64_eval)
  have a6: "rnd64 ((2871044762448691 / 562949953421312) - (8219069319951155 / 1125899906842624)) = - (2476979795053773 / 1125899906842624)"
    by (simp add: rnd64_eval)
  have a7: "rnd64 (2 * \<bar>- (2476979795053773 / 1125899906842624)\<bar>) = 2476979795053773 / 562949953421312"
    by (simp add: rnd64_eval)
  have a8: "rnd64 (1 + \<bar>2871044762448691 / 562949953421312\<bar>) = 3433994715870003 / 562949953421312"
    by (simp add: rnd64_eval)
  have a9: "rnd64 ((3433994715870003 / 562949953421312) + \<bar>8219069319951155 / 1125899906842624\<bar>) = 1885882343961395 / 140737488355328"
    by (simp add: rnd64_eval)
  have a10: "rnd64 ((2476979795053773 / 562949953421312) / (1885882343961395 / 140737488355328)) = 739396953747395 / 2251799813685248"
    by (simp add: rnd64_eval)
  have a11: "rnd64 (1 * (739396953747395 / 2251799813685248)) = 739396953747395 / 2251799813685248"
    by (simp add: rnd64_eval)
  have a12: "rnd64 (1 - 1) = 0"
    by (simp add: rnd64_eval)
  have a13: "rnd64 (2 * \<bar>0\<bar>) = 0"
    by (simp add: rnd64_eval)
  have a14: "rnd64 (1 + \<bar>1\<bar>) = 2"
    by (simp add: rnd64_eval)
  have a15: "rnd64 (2 + \<bar>1\<bar>) = 3"
    by (simp add: rnd64_eval)
  have a16: "rnd64 (0 / 3) = 0"
    by (simp add: rnd64_eval)
  have a17: "rnd64 (1 * 0) = 0"
    by (simp add: rnd64_eval)
  have a18: "rnd64 (0 + (739396953747395 / 2251799813685248)) = 739396953747395 / 2251799813685248"
    by (simp add: rnd64_eval)
  have a19: "rnd64 ((739396953747395 / 2251799813685248) + 0) = 739396953747395 / 2251799813685248"
    by (simp add: rnd64_eval)
  have a20: "rnd64 (66 / 10) = 3715469692580659 / 562949953421312"
    by (simp add: rnd64_eval)
  have a21: "rnd64 ((3715469692580659 / 562949953421312) - (739396953747395 / 2251799813685248)) = 1765310227071905 / 281474976710656"
    by (simp add: rnd64_eval)
  have a22: "rnd64 ((1765310227071905 / 281474976710656) / (3715469692580659 / 562949953421312)) = 8559079888833479 / 9007199254740992"
    by (simp add: rnd64_eval)
  have a23: "rnd64 ((8559079888833479 / 9007199254740992) * 100) = 6686781163151155 / 70368744177664"
    by (simp add: rnd64_eval)
  have a24: "rnd64 (9) = 9"
    by (simp add: rnd64_eval)
  have a25: "rnd64 (9 - 1) = 8"
    by (simp add: rnd64_eval)
  have a26: "rnd64 (8 / 9) = 2001599834386887 / 2251799813685248"
    by (simp add: rnd64_eval)
  have a27: "rnd64 ((2001599834386887 / 2251799813685248) * 100) = 3127499741229511 / 35184372088832"
    by (simp add: rnd64_eval)
  show ?thesis
    unfolding score_two
    by (simp only: a1 a2 a3 a4 a5 a6 a7 a8 a9 a10 a11 a12 a13 a14 a15 a16 a17 a18 a19 a20 a21 a22 a23 a24 a25 a26 a27)
qed

lemma score_73_51:
  "score rnd64 \<lparr>ZMIndex = [0], ZMWeight = [1], GeoWeight = [1, 1]\<rparr>
     [2] [rnd64 (73 / 10), 1] [1] [rnd64 (51 / 10), 1]
   = Inr (1671695290787789 / 17592186044416, 3127499741229511 / 35184372088832)"
proof -
  have b1: "rnd64 (51 / 10) = 2871044762448691 / 562949953421312"
    by (simp add: rnd64_eval)
  have b2: "rnd64 (73 / 10) = 8219069319951155 / 1125899906842624"
    by (simp add: rnd64_eval)
  have b3: "rnd64 (2 - 1) = 1"
    by (simp add: rnd64_eval)
  have b4: "rnd64 (\<bar>1\<bar> * 1) = 1"
    by (simp add: rnd64_eval)
  have b5: "rnd64 (0 + 1) = 1"
    by (simp add: rnd64_eval)
  have b6: "rnd64 ((8219069319951155 / 1125899906842624) - (2871044762448691 / 562949953421312)) = 2476979795053773 / 1125899906842624"
    by (simp add: rnd64_eval)
  have b7: "rnd64 (2 * \<bar>2476979795053773 / 1125899906842624\<bar>) = 2476979795053773 / 562949953421312"
    by (simp add: rnd64_eval)
  have b8: "rnd64 (1 + \<bar>8219069319951155 / 1125899906842624\<bar>) = 2336242306698445 / 281474976710656"
    by (simp add: rnd64_eval)
  have b9: "rnd64 ((2336242306698445 / 281474976710656) + \<bar>2871044762448691 / 562949953421312\<bar>) = 7543529375845581 / 562949953421312"
    by (simp add: rnd64_eval)
  have b10: "rnd64 ((2476979795053773 / 562949953421312) / (7543529375845581 / 562949953421312)) = 5915175629979159 / 18014398509481984"
    by (simp add: rnd64_eval)
  have b11: "rnd64 (1 * (5915175629979159 / 18014398509481984)) = 5915175629979159 / 18014398509481984"
    by (simp add: rnd64_eval)
  have b12: "rnd64 (1 - 1) = 0"
    by (simp add: rnd64_eval)
  have b13: "rnd64 (2 * \<bar>0\<bar>) = 0"
    by (simp add: rnd64_eval)
  have b14: "rnd64 (1 + \<bar>1\<bar>) = 2"
    by (simp add: rnd64_eval)
  have b15: "rnd64 (2 + \<bar>1\<bar>) = 3"
    by (simp add: rnd64_eval)
  have b16: "rnd64 (0 / 3) = 0"
    by (simp add: rnd64_eval)
  have b17: "rnd64 (1 * 0) = 0"
    by (simp add: rnd64_eval)
  have b18: "rnd64 (0 + (5915175629979159 / 18014398509481984)) = 5915175629979159 / 18014398509481984"
    by (simp add: rnd64_eval)
  have b19: "rnd64 ((5915175629979159 / 18014398509481984) + 0) = 5915175629979159 / 18014398509481984"
    by (simp add: rnd64_eval)
  have b20: "rnd64 (66 / 10) = 3715469692580659 / 562949953421312"
    by (simp add: rnd64_eval)
  have b21: "rnd64 ((3715469692580659 / 562949953421312) - (5915175629979159 / 18014398509481984)) = 7061240908287621 / 1125899906842624"
    by (simp add: rnd64_eval)
  have b22: "rnd64 ((7061240908287621 / 1125899906842624) / (3715469692580659 / 562949953421312)) = 1069884986104185 / 1125899906842624"
    by (simp add: rnd64_eval)
  have b23: "rnd64 ((1069884986104185 / 1125899906842624) * 100) = 1671695290787789 / 17592186044416"
    by (simp add: rnd64_eval)
  have b24: "rnd64 (9) = 9"
    by (simp add: rnd64_eval)
  have b25: "rnd64 (9 - 1) = 8"
    by (simp add: rnd64_eval)
  have b26: "rnd64 (8 / 9) = 2001599834386887 / 2251799813685248"
    by (simp add: rnd64_eval)
  have b27: "rnd64 ((2001599834386887 / 2251799813685248) * 100) = 3127499741229511 / 35184372088832"
    by (simp add: rnd64_eval)
  show ?thesis
    unfolding score_two
    by (simp only: b1 b2 b3 b4 b5 b6 b7 b8 b9 b10 b11 b12 b13 b14 b15 b16 b17 b18 b19 b20 b21 b22 b23 b24 b25 b26 b27)
qed

text \<open>
  C7, as stated, fails: the two orders give \<^verbatim>\<open>GeoScoreScaled\<close> values that differ in the
  last bit (\<^verbatim>\<open>95.02487562189053\<close> and \<^verbatim>\<open>95.02487562189054\<close>).  Only one term of each
  sum is not zero, so the order of the accumulation plays no part.
\<close>

theorem score_symmetry_counterexample:
  "score rnd64 \<lparr>ZMIndex = [0], ZMWeight = [1], GeoWeight = [1, 1]\<rparr>
     [1] [rnd64 (51 / 10), 1] [2] [rnd64 (73 / 10), 1]
   \<noteq> score rnd64 \<lparr>ZMIndex = [0], ZMWeight = [1], GeoWeight = [1, 1]\<rparr>
     [2] [rnd64 (73 / 10), 1] [1] [rnd64 (51 / 10), 1]"
  unfolding score_51_73 score_73_51 by simp

end
